theory Spec2Isabelle
  imports Main "HOL-Library.Word" "HOL-Library.Sublist"
begin

section \<open>The LDAP connector of taiga-contrib-ldap-auth-ext (connector.py)\<close>

text \<open>
  A shallow embedding of \<^verbatim>\<open>src/taiga_contrib_ldap_auth_ext/connector.py\<close>.
  The module holds three functions: \<^verbatim>\<open>_get_server\<close>, \<^verbatim>\<open>_get_auth_details\<close>
  and \<^verbatim>\<open>login\<close>. Everything they call in the ldap3 library (\<^verbatim>\<open>Server\<close>,
  \<^verbatim>\<open>Connection\<close>, \<^verbatim>\<open>Connection.search\<close>) talks to a directory server and is
  taken as a parameter (the record \<open>world\<close> below); exceptions are values of a
  sum type, and every call made to the library is written to a trace of events.
\<close>

subsection \<open>Python values: text, bytes, exceptions\<close>

text \<open>
  A Python \<^verbatim>\<open>str\<close> is a sequence of Unicode code points (a lone surrogate is a
  legal element), \<^verbatim>\<open>bytes\<close> a sequence of octets. \<open>lit\<close> turns an ASCII
  literal of the source into its code points.
\<close>

type_synonym str = "nat list"
type_synonym bytes = "8 word list"

definition lit :: "string \<Rightarrow> str" where
  "lit s = map of_char s"

datatype exn =
    LDAPConnectionError str
  | LDAPUserLoginError str
  | UnboundLocalError string
  | AttributeError
  | TypeError
  | IndexError
  | UnicodeDecodeError
  | UnicodeEncodeError
  | LibraryError str

text \<open>
  \<open>LDAPConnectionError m\<close> and \<open>LDAPUserLoginError m\<close> are the module's two
  exception classes, raised with \<^verbatim>\<open>{"error_message": m}\<close>. \<open>LibraryError m\<close> is any
  exception (a subclass of \<^verbatim>\<open>Exception\<close>) raised inside ldap3. The others are the
  interpreter's own.
\<close>

subsubsection \<open>String operations\<close>

text \<open>\<^verbatim>\<open>sub in s\<close>: \<open>sub\<close> occurs in \<open>s\<close> as a contiguous run.\<close>

fun contains :: "str \<Rightarrow> str \<Rightarrow> bool" where
  "contains sub [] = (sub = [])"
| "contains sub (c # cs) = (prefix sub (c # cs) \<or> contains sub cs)"

text \<open>
  \<^verbatim>\<open>s.replace(old, new)\<close>: every occurrence of \<open>old\<close>, found from the left and
  without overlap, becomes \<open>new\<close>. An empty \<open>old\<close> matches before every character
  and at the end.
\<close>

fun replace_from :: "str \<Rightarrow> str \<Rightarrow> str \<Rightarrow> str" where
  "replace_from old new [] = []"
| "replace_from old new (c # cs) =
     (if old \<noteq> [] \<and> prefix old (c # cs)
      then new @ replace_from old new (drop (length old) (c # cs))
      else c # replace_from old new cs)"

definition replace :: "str \<Rightarrow> str \<Rightarrow> str \<Rightarrow> str" where
  "replace old new s =
     (if old = [] then new @ concat (map (\<lambda>c. c # new) s)
      else replace_from old new s)"

text \<open>
  \<^verbatim>\<open>s.lower()\<close>, on the letters A to Z. Outside ASCII Python follows the Unicode
  tables, which the model leaves out: no code point outside ASCII lowers to one
  of the characters of \<^verbatim>\<open>ldaps://\<close>, so the only use of \<open>lower\<close> in the module, the
  prefix test of \<open>get_server\<close>, is not affected.
\<close>

definition lower_cp :: "nat \<Rightarrow> nat" where
  "lower_cp c = (if 65 \<le> c \<and> c \<le> 90 then c + 32 else c)"

definition lower :: "str \<Rightarrow> str" where
  "lower s = map lower_cp s"

definition startswith :: "str \<Rightarrow> str \<Rightarrow> bool" where
  "startswith s p = prefix p s"

subsubsection \<open>UTF-8\<close>

text \<open>
  \<^verbatim>\<open>bytes(s, 'utf-8')\<close> fails on a surrogate (\<^verbatim>\<open>UnicodeEncodeError\<close>);
  \<^verbatim>\<open>b.decode('utf-8')\<close> and \<^verbatim>\<open>str(b, encoding='utf-8')\<close> are strict: a truncated or
  overlong sequence, an encoded surrogate or a value above U+10FFFF raises
  \<^verbatim>\<open>UnicodeDecodeError\<close>.
\<close>

definition surrogate :: "nat \<Rightarrow> bool" where
  "surrogate c = (0xD800 \<le> c \<and> c < 0xE000)"

definition encode_cp :: "nat \<Rightarrow> nat list option" where
  "encode_cp c =
     (if c < 0x80 then Some [c]
      else if c < 0x800 then Some [0xC0 + c div 64, 0x80 + c mod 64]
      else if c < 0x10000 then
        (if surrogate c then None
         else Some [0xE0 + c div 4096, 0x80 + (c div 64) mod 64, 0x80 + c mod 64])
      else if c < 0x110000 then
        Some [0xF0 + c div 262144, 0x80 + (c div 4096) mod 64,
              0x80 + (c div 64) mod 64, 0x80 + c mod 64]
      else None)"

fun encode_cps :: "str \<Rightarrow> nat list option" where
  "encode_cps [] = Some []"
| "encode_cps (c # cs) =
     (case encode_cp c of
        None \<Rightarrow> None
      | Some bs \<Rightarrow> (case encode_cps cs of None \<Rightarrow> None | Some r \<Rightarrow> Some (bs @ r)))"

definition str_encode :: "str \<Rightarrow> exn + bytes" where
  "str_encode s =
     (case encode_cps s of None \<Rightarrow> Inl UnicodeEncodeError | Some ns \<Rightarrow> Inr (map of_nat ns))"

definition continuation :: "nat \<Rightarrow> bool" where
  "continuation b = (0x80 \<le> b \<and> b < 0xC0)"

text \<open>
  \<open>decode_cp b bs\<close> reads the code point that starts with the octet \<open>b\<close> and
  returns it with the number of octets of \<open>bs\<close> it took.
\<close>

definition decode_cp :: "nat \<Rightarrow> nat list \<Rightarrow> (nat \<times> nat) option" where
  "decode_cp b bs =
     (if b < 0x80 then Some (b, 0)
      else if 0xC0 \<le> b \<and> b < 0xE0 then
        (case bs of
           b1 # _ \<Rightarrow>
             (let c = (b - 0xC0) * 64 + (b1 - 0x80)
              in if continuation b1 \<and> 0x80 \<le> c then Some (c, 1) else None)
         | _ \<Rightarrow> None)
      else if 0xE0 \<le> b \<and> b < 0xF0 then
        (case bs of
           b1 # b2 # _ \<Rightarrow>
             (let c = (b - 0xE0) * 4096 + (b1 - 0x80) * 64 + (b2 - 0x80)
              in if continuation b1 \<and> continuation b2 \<and> 0x800 \<le> c \<and> \<not> surrogate c
                 then Some (c, 2) else None)
         | _ \<Rightarrow> None)
      else if 0xF0 \<le> b \<and> b < 0xF8 then
        (case bs of
           b1 # b2 # b3 # _ \<Rightarrow>
             (let c = (b - 0xF0) * 262144 + (b1 - 0x80) * 4096 + (b2 - 0x80) * 64 + (b3 - 0x80)
              in if continuation b1 \<and> continuation b2 \<and> continuation b3
                    \<and> 0x10000 \<le> c \<and> c < 0x110000
                 then Some (c, 3) else None)
         | _ \<Rightarrow> None)
      else None)"

fun decode_cps :: "nat list \<Rightarrow> str option" where
  "decode_cps [] = Some []"
| "decode_cps (b # bs) =
     (case decode_cp b bs of
        None \<Rightarrow> None
      | Some (c, k) \<Rightarrow>
          (case decode_cps (drop k bs) of None \<Rightarrow> None | Some r \<Rightarrow> Some (c # r)))"

definition bytes_decode :: "bytes \<Rightarrow> exn + str" where
  "bytes_decode b =
     (case decode_cps (map unat b) of None \<Rightarrow> Inl UnicodeDecodeError | Some s \<Rightarrow> Inr s)"

text \<open>Text that \<^verbatim>\<open>bytes(s, 'utf-8')\<close> accepts, and octets that decode.\<close>

definition encodable :: "str \<Rightarrow> bool" where
  "encodable d = list_all (\<lambda>c. c < 0x110000 \<and> \<not> surrogate c) d"

definition valid_utf8 :: "bytes \<Rightarrow> bool" where
  "valid_utf8 b = (decode_cps (map unat b) \<noteq> None)"

subsection \<open>Settings\<close>

text \<open>
  The module reads eleven attributes of the Django settings object with
  \<^verbatim>\<open>getattr(settings, name, default)\<close>. A field is \<open>None\<close> when the settings do not
  define the attribute; a defined attribute has the type of its default. The
  record is extensible: settings may define any further attribute.
\<close>

record django_settings =
  LDAP_SERVER :: "str option"
  LDAP_PORT :: "str option"
  LDAP_SEARCH_BASE :: "str option"
  LDAP_SEARCH_FILTER_ADDITIONAL :: "str option"
  LDAP_BIND_DN :: "str option"
  LDAP_BIND_PASSWORD :: "str option"
  LDAP_USERNAME_ATTRIBUTE :: "str option"
  LDAP_EMAIL_ATTRIBUTE :: "str option"
  LDAP_FULL_NAME_ATTRIBUTE :: "str option"
  LDAP_TLS_CERTS :: "str option"
  LDAP_START_TLS :: "bool option"

definition getattr :: "'a option \<Rightarrow> 'a \<Rightarrow> 'a" where
  "getattr v d = (case v of None \<Rightarrow> d | Some x \<Rightarrow> x)"

definition SERVER :: "'a django_settings_scheme \<Rightarrow> str" where
  "SERVER s = getattr (LDAP_SERVER s) (lit ''localhost'')"

definition PORT :: "'a django_settings_scheme \<Rightarrow> str" where
  "PORT s = getattr (LDAP_PORT s) (lit ''389'')"

definition SEARCH_BASE :: "'a django_settings_scheme \<Rightarrow> str" where
  "SEARCH_BASE s = getattr (LDAP_SEARCH_BASE s) []"

definition SEARCH_FILTER_ADDITIONAL :: "'a django_settings_scheme \<Rightarrow> str" where
  "SEARCH_FILTER_ADDITIONAL s = getattr (LDAP_SEARCH_FILTER_ADDITIONAL s) []"

definition BIND_DN :: "'a django_settings_scheme \<Rightarrow> str" where
  "BIND_DN s = getattr (LDAP_BIND_DN s) []"

definition BIND_PASSWORD :: "'a django_settings_scheme \<Rightarrow> str" where
  "BIND_PASSWORD s = getattr (LDAP_BIND_PASSWORD s) []"

definition USERNAME_ATTRIBUTE :: "'a django_settings_scheme \<Rightarrow> str" where
  "USERNAME_ATTRIBUTE s = getattr (LDAP_USERNAME_ATTRIBUTE s) (lit ''uid'')"

definition EMAIL_ATTRIBUTE :: "'a django_settings_scheme \<Rightarrow> str" where
  "EMAIL_ATTRIBUTE s = getattr (LDAP_EMAIL_ATTRIBUTE s) (lit ''mail'')"

definition FULL_NAME_ATTRIBUTE :: "'a django_settings_scheme \<Rightarrow> str" where
  "FULL_NAME_ATTRIBUTE s = getattr (LDAP_FULL_NAME_ATTRIBUTE s) (lit ''displayName'')"

definition TLS_CERTS :: "'a django_settings_scheme \<Rightarrow> str" where
  "TLS_CERTS s = getattr (LDAP_TLS_CERTS s) []"

definition START_TLS :: "'a django_settings_scheme \<Rightarrow> bool" where
  "START_TLS s = getattr (LDAP_START_TLS s) False"

subsection \<open>The ldap3 interface\<close>

datatype get_info_mode = NONE
datatype auto_bind_mode = AUTO_BIND_NO_TLS | AUTO_BIND_TLS_BEFORE_BIND
datatype authentication_mode = ANONYMOUS | SIMPLE
datatype client_strategy_mode = SYNC
datatype search_scope_mode = BASE | LEVEL | SUBTREE

text \<open>The arguments of \<^verbatim>\<open>Server(SERVER, port=, get_info=, use_ssl=, tls=)\<close>.\<close>

record server =
  host :: str
  port :: str
  get_info :: get_info_mode
  use_ssl :: bool
  tls :: "str option"

text \<open>
  The dictionary returned by \<^verbatim>\<open>_get_auth_details\<close>, and the keyword arguments of
  \<^verbatim>\<open>Connection\<close>, which extend it. The first argument of \<^verbatim>\<open>Connection\<close> is whatever
  \<^verbatim>\<open>_get_server\<close> returned: a server object or Python's \<^verbatim>\<open>None\<close>.
\<close>

record auth_details =
  user :: "str option"
  password :: "str option"
  authentication :: authentication_mode

record conn_args = auth_details +
  conn_server :: "server option"
  auto_bind :: auto_bind_mode
  client_strategy :: client_strategy_mode
  check_names :: bool

record search_args =
  search_base :: str
  search_filter :: str
  search_scope :: search_scope_mode
  attributes :: "str list"
  paged_size :: nat

text \<open>
  An element of \<^verbatim>\<open>c.response\<close> is a dictionary; the module looks at two keys.
  A field is \<open>None\<close> when the key is absent. \<open>raw_attributes\<close> maps an attribute
  name to its list of raw values.
\<close>

record response_item =
  raw_attributes :: "(str \<rightharpoonup> bytes list) option"
  dn :: "str option"

text \<open>
  Every call into ldap3 is an event; the flag says whether the call returned
  (\<open>True\<close>) or raised. A \<^verbatim>\<open>Connection\<close> that returned is an open session.
  \<open>EvUnbind\<close> stands for releasing a session (\<^verbatim>\<open>unbind\<close>, or leaving a
  \<^verbatim>\<open>with\<close> block).
\<close>

datatype event =
    EvServer server bool
  | EvConnection conn_args bool
  | EvSearch search_args bool
  | EvUnbind

text \<open>
  The world outside the module: how the interpreter prints an exception under
  \<^verbatim>\<open>%s\<close>, and what each ldap3 call does, given the events so far and the
  arguments. \<open>Some e\<close> (or \<open>Inl e\<close>) means the call raises \<open>e\<close>.
\<close>

record world =
  str_exc :: "exn \<Rightarrow> str"
  Server_init :: "server \<Rightarrow> exn option"
  Connection_init :: "event list \<Rightarrow> conn_args \<Rightarrow> exn option"
  Connection_search :: "event list \<Rightarrow> search_args \<Rightarrow> exn + response_item list"

text \<open>
  Modelled from the spec: \<^verbatim>\<open>escape_filter_chars\<close> is imported from
  \<^verbatim>\<open>ldap3.utils.conv\<close> and is not under src/. The spec says that the
  directory-filter metacharacters of the input (\<^verbatim>\<open>*\<close>, \<^verbatim>\<open>(\<close>, \<^verbatim>\<open>)\<close>, the backslash)
  are escaped. The escape is that of RFC 4515, which ldap3 implements by five
  replacements in this order: the backslash (code point 92) becomes backslash
  5c, then \<^verbatim>\<open>*\<close> becomes backslash 2a, \<^verbatim>\<open>(\<close> backslash 28, \<^verbatim>\<open>)\<close> backslash 29 and
  NUL backslash 00.
\<close>

definition escape_filter_chars :: "str \<Rightarrow> str" where
  "escape_filter_chars text =
     (let escaped = replace [92] (92 # lit ''5c'') text;
          escaped = replace (lit ''*'') (92 # lit ''2a'') escaped;
          escaped = replace (lit ''('') (92 # lit ''28'') escaped;
          escaped = replace (lit '')'') (92 # lit ''29'') escaped;
          escaped = replace [0] (92 # lit ''00'') escaped
      in escaped)"

text \<open>What the five replacements make of one character.\<close>

definition esc1 :: "nat \<Rightarrow> str" where
  "esc1 c =
     (if c = 92 then 92 # lit ''5c''
      else if c = 42 then 92 # lit ''2a''
      else if c = 40 then 92 # lit ''28''
      else if c = 41 then 92 # lit ''29''
      else if c = 0 then 92 # lit ''00''
      else [c])"

subsection \<open>The module's functions\<close>

text \<open>
  \<^verbatim>\<open>_get_server\<close> (lines 53 to 65). The \<^verbatim>\<open>try\<close> block builds the server object
  and binds it to a local variable; the function has no \<^verbatim>\<open>return\<close> statement, so
  when the constructor does not raise, the result is Python's \<^verbatim>\<open>None\<close>.
\<close>

definition get_server :: "'a django_settings_scheme \<Rightarrow> world \<Rightarrow> (exn + server option) \<times> event list" where
  "get_server s w =
     (let tls = (if TLS_CERTS s \<noteq> [] then Some (TLS_CERTS s) else None);
          use_ssl = startswith (lower (SERVER s)) (lit ''ldaps://'');
          args = \<lparr>host = SERVER s, port = PORT s, get_info = NONE,
                  use_ssl = use_ssl, tls = tls\<rparr>
      in case Server_init w args of
           None \<Rightarrow> (Inr None, [EvServer args True])
         | Some e \<Rightarrow>
             (Inl (LDAPConnectionError (lit ''Error connecting to LDAP server: '' @ str_exc w e)),
              [EvServer args False]))"

text \<open>
  \<^verbatim>\<open>_get_auth_details\<close> (lines 68 to 89). The function has one parameter. In the
  first branch \<^verbatim>\<open>password = password\<close> reads the local variable \<^verbatim>\<open>password\<close>
  before anything was assigned to it, which raises \<^verbatim>\<open>UnboundLocalError\<close>.
\<close>

definition get_auth_details :: "'a django_settings_scheme \<Rightarrow> str \<Rightarrow> exn + auth_details" where
  "get_auth_details s username_sanitized =
     (if BIND_DN s \<noteq> [] \<and> contains (lit ''<username>'') (BIND_DN s) then
        (let user = replace (lit ''<username>'') username_sanitized (BIND_DN s)
         in Inl (UnboundLocalError ''password''))
      else if BIND_DN s \<noteq> [] then
        Inr \<lparr>user = Some (BIND_DN s), password = Some (BIND_PASSWORD s),
             authentication = SIMPLE\<rparr>
      else
        Inr \<lparr>user = None, password = None, authentication = ANONYMOUS\<rparr>)"

text \<open>Lines 109 to 111 of \<^verbatim>\<open>login\<close>: the value of \<^verbatim>\<open>auto_bind\<close>.\<close>

definition bind_mode :: "'a django_settings_scheme \<Rightarrow> auto_bind_mode" where
  "bind_mode s = (if START_TLS s then AUTO_BIND_TLS_BEFORE_BIND else AUTO_BIND_NO_TLS)"

text \<open>
  Lines 113 to 118: the session used for the search. \<open>search_session_body\<close> is
  the body of the \<^verbatim>\<open>try\<close>, with the call of \<^verbatim>\<open>_get_auth_details\<close> that is an
  argument of \<^verbatim>\<open>Connection\<close>; \<open>open_search_session\<close> adds the handler.
\<close>

definition search_session_body ::
  "'a django_settings_scheme \<Rightarrow> world \<Rightarrow> server option \<Rightarrow> auto_bind_mode \<Rightarrow> str \<Rightarrow> event list
     \<Rightarrow> exn option \<times> event list" where
  "search_session_body s w srv ab username_or_email_sanitized t =
     (case get_auth_details s username_or_email_sanitized of
        Inl e \<Rightarrow> (Some e, t)
      | Inr d \<Rightarrow>
          (let args = \<lparr>user = user d, password = password d,
                       authentication = authentication d, conn_server = srv,
                       auto_bind = ab, client_strategy = SYNC, check_names = True\<rparr>
           in case Connection_init w t args of
                None \<Rightarrow> (None, t @ [EvConnection args True])
              | Some e \<Rightarrow> (Some e, t @ [EvConnection args False])))"

definition open_search_session ::
  "'a django_settings_scheme \<Rightarrow> world \<Rightarrow> server option \<Rightarrow> auto_bind_mode \<Rightarrow> str \<Rightarrow> event list
     \<Rightarrow> exn option \<times> event list" where
  "open_search_session s w srv ab username_or_email_sanitized t =
     (case search_session_body s w srv ab username_or_email_sanitized t of
        (None, t') \<Rightarrow> (None, t')
      | (Some e, t') \<Rightarrow>
          (Some (LDAPConnectionError (lit ''Error connecting to LDAP server: '' @ str_exc w e)),
           t'))"

text \<open>Lines 121 to 124: the search filter.\<close>

definition make_search_filter :: "'a django_settings_scheme \<Rightarrow> str \<Rightarrow> str" where
  "make_search_filter s username_or_email_sanitized =
     (let search_filter =
            lit ''(|('' @ USERNAME_ATTRIBUTE s @ lit ''='' @ username_or_email_sanitized
            @ lit '')('' @ EMAIL_ATTRIBUTE s @ lit ''='' @ username_or_email_sanitized
            @ lit ''))''
      in if SEARCH_FILTER_ADDITIONAL s \<noteq> []
         then lit ''(&'' @ search_filter @ SEARCH_FILTER_ADDITIONAL s @ lit '')''
         else search_filter)"

text \<open>Lines 125 to 134: the search, body of the \<^verbatim>\<open>try\<close> and handler.\<close>

definition search_body ::
  "'a django_settings_scheme \<Rightarrow> world \<Rightarrow> str \<Rightarrow> event list
     \<Rightarrow> (exn + response_item list) \<times> event list" where
  "search_body s w username_or_email_sanitized t =
     (let args = \<lparr>search_base = SEARCH_BASE s,
                  search_filter = make_search_filter s username_or_email_sanitized,
                  search_scope = SUBTREE,
                  attributes = [USERNAME_ATTRIBUTE s, EMAIL_ATTRIBUTE s, FULL_NAME_ATTRIBUTE s],
                  paged_size = 5\<rparr>
      in case Connection_search w t args of
           Inr response \<Rightarrow> (Inr response, t @ [EvSearch args True])
         | Inl e \<Rightarrow> (Inl e, t @ [EvSearch args False]))"

definition run_search ::
  "'a django_settings_scheme \<Rightarrow> world \<Rightarrow> str \<Rightarrow> event list
     \<Rightarrow> (exn + response_item list) \<times> event list" where
  "run_search s w username_or_email_sanitized t =
     (case search_body s w username_or_email_sanitized t of
        (Inr response, t') \<Rightarrow> (Inr response, t')
      | (Inl e, t') \<Rightarrow>
          (Inl (LDAPUserLoginError (lit ''LDAP login incorrect: '' @ str_exc w e)), t'))"

text \<open>Line 137: \<^verbatim>\<open>'raw_attributes' in r and 'dn' in r\<close>.\<close>

definition eligible :: "response_item \<Rightarrow> bool" where
  "eligible r = (raw_attributes r \<noteq> None \<and> dn r \<noteq> None)"

text \<open>
  The truth value of \<^verbatim>\<open>raw_attributes.get(name)\<close>: \<^verbatim>\<open>None\<close> and the empty list are
  false.
\<close>

definition truthy :: "bytes list option \<Rightarrow> bool" where
  "truthy v = (case v of None \<Rightarrow> False | Some [] \<Rightarrow> False | Some (_ # _) \<Rightarrow> True)"

text \<open>\<^verbatim>\<open>raw_attributes.get(name)[0].decode('utf-8')\<close>.\<close>

definition first_decoded :: "bytes list option \<Rightarrow> exn + str" where
  "first_decoded v =
     (case v of
        None \<Rightarrow> Inl TypeError
      | Some [] \<Rightarrow> Inl IndexError
      | Some (b # _) \<Rightarrow> bytes_decode b)"

text \<open>\<^verbatim>\<open>str(bytes(c.response[0].get('dn'), 'utf-8'), encoding='utf-8')\<close>.\<close>

definition dn_text :: "str option \<Rightarrow> exn + str" where
  "dn_text v =
     (case v of
        None \<Rightarrow> Inl TypeError
      | Some d \<Rightarrow> (case str_encode d of Inl e \<Rightarrow> Inl e | Inr b \<Rightarrow> bytes_decode b))"

text \<open>
  Lines 158 to 165: the second session, bound as the entry found; body of the
  \<^verbatim>\<open>try\<close> and handler.
\<close>

definition verify_body ::
  "world \<Rightarrow> server option \<Rightarrow> auto_bind_mode \<Rightarrow> str option \<Rightarrow> str \<Rightarrow> event list
     \<Rightarrow> exn option \<times> event list" where
  "verify_body w srv ab dn_value pw t =
     (case dn_text dn_value of
        Inl e \<Rightarrow> (Some e, t)
      | Inr d \<Rightarrow>
          (let args = \<lparr>user = Some d, password = Some pw, authentication = SIMPLE,
                       conn_server = srv, auto_bind = ab, client_strategy = SYNC,
                       check_names = True\<rparr>
           in case Connection_init w t args of
                None \<Rightarrow> (None, t @ [EvConnection args True])
              | Some e \<Rightarrow> (Some e, t @ [EvConnection args False])))"

definition verify_bind ::
  "world \<Rightarrow> server option \<Rightarrow> auto_bind_mode \<Rightarrow> str option \<Rightarrow> str \<Rightarrow> event list
     \<Rightarrow> exn option \<times> event list" where
  "verify_bind w srv ab dn_value pw t =
     (case verify_body w srv ab dn_value pw t of
        (None, t') \<Rightarrow> (None, t')
      | (Some e, t') \<Rightarrow>
          (Some (LDAPUserLoginError (lit ''LDAP bind failed: '' @ str_exc w e)), t'))"

text \<open>Lines 137 to 169: what \<^verbatim>\<open>login\<close> does with the response of the search.\<close>

definition check_response ::
  "'a django_settings_scheme \<Rightarrow> world \<Rightarrow> server option \<Rightarrow> auto_bind_mode \<Rightarrow> str
     \<Rightarrow> response_item list \<Rightarrow> event list \<Rightarrow> (exn + str \<times> str \<times> str) \<times> event list" where
  "check_response s w srv ab pw response0 t =
     (case filter eligible response0 of
        [] \<Rightarrow> (Inl (LDAPUserLoginError (lit ''LDAP login not found'')), t)
      | r # rest \<Rightarrow>
          if length (r # rest) > 1 then
            (Inl (LDAPUserLoginError (lit ''LDAP login could not be determined.'')), t)
          else
            (case raw_attributes r of
               None \<Rightarrow> (Inl AttributeError, t)
             | Some ra \<Rightarrow>
                 if \<not> (truthy (ra (USERNAME_ATTRIBUTE s)) \<and> truthy (ra (EMAIL_ATTRIBUTE s))
                        \<and> truthy (ra (FULL_NAME_ATTRIBUTE s)))
                 then (Inl (LDAPUserLoginError (lit ''LDAP login is invalid.'')), t)
                 else
                   (case first_decoded (ra (USERNAME_ATTRIBUTE s)) of
                      Inl e \<Rightarrow> (Inl e, t)
                    | Inr username \<Rightarrow>
                   (case first_decoded (ra (EMAIL_ATTRIBUTE s)) of
                      Inl e \<Rightarrow> (Inl e, t)
                    | Inr email \<Rightarrow>
                   (case first_decoded (ra (FULL_NAME_ATTRIBUTE s)) of
                      Inl e \<Rightarrow> (Inl e, t)
                    | Inr full_name \<Rightarrow>
                   (case verify_bind w srv ab (dn r) pw t of
                      (Some e, t') \<Rightarrow> (Inl e, t')
                    | (None, t') \<Rightarrow> (Inr (username, email, full_name), t')))))))"

text \<open>
  \<^verbatim>\<open>login\<close> (lines 92 to 169). The result is the returned triple or the
  exception raised, with the events of the call in order.
\<close>

definition login ::
  "'a django_settings_scheme \<Rightarrow> world \<Rightarrow> str \<Rightarrow> str
     \<Rightarrow> (exn + str \<times> str \<times> str) \<times> event list" where
  "login s w username_or_email pw =
     (case get_server s w of
        (Inl e, t0) \<Rightarrow> (Inl e, t0)
      | (Inr srv, t0) \<Rightarrow>
          (let username_or_email_sanitized = escape_filter_chars username_or_email;
               ab = bind_mode s
           in case open_search_session s w srv ab username_or_email_sanitized t0 of
                (Some e, t1) \<Rightarrow> (Inl e, t1)
              | (None, t1) \<Rightarrow>
                  (case run_search s w username_or_email_sanitized t1 of
                     (Inl e, t2) \<Rightarrow> (Inl e, t2)
                   | (Inr response, t2) \<Rightarrow> check_response s w srv ab pw response t2)))"

subsection \<open>Observations on a trace\<close>

fun is_search :: "event \<Rightarrow> bool" where
  "is_search (EvSearch a ok) = True"
| "is_search e = False"

fun connection_calls :: "event list \<Rightarrow> conn_args list" where
  "connection_calls [] = []"
| "connection_calls (EvConnection c ok # t) = c # connection_calls t"
| "connection_calls (e # t) = connection_calls t"

fun search_calls :: "event list \<Rightarrow> search_args list" where
  "search_calls [] = []"
| "search_calls (EvSearch a ok # t) = a # search_calls t"
| "search_calls (e # t) = search_calls t"

text \<open>The arguments of the one \<^verbatim>\<open>search\<close> call of \<^verbatim>\<open>login\<close>.\<close>

definition the_search :: "'a django_settings_scheme \<Rightarrow> str \<Rightarrow> search_args" where
  "the_search s v =
     \<lparr>search_base = SEARCH_BASE s, search_filter = make_search_filter s v,
      search_scope = SUBTREE,
      attributes = [USERNAME_ATTRIBUTE s, EMAIL_ATTRIBUTE s, FULL_NAME_ATTRIBUTE s],
      paged_size = 5\<rparr>"

text \<open>A stretch of a trace that holds at most one event, of the kind named.\<close>

definition conn_events :: "event list \<Rightarrow> bool" where
  "conn_events es = (es = [] \<or> (\<exists>c ok. es = [EvConnection c ok]))"

definition search_events :: "search_args \<Rightarrow> event list \<Rightarrow> bool" where
  "search_events q es = (es = [] \<or> (\<exists>ok. es = [EvSearch q ok]))"

text \<open>The binds attempted after the search: the verification binds.\<close>

definition verification_binds :: "event list \<Rightarrow> conn_args list" where
  "verification_binds t = connection_calls (dropWhile (\<lambda>e. \<not> is_search e) t)"

text \<open>Sessions opened and sessions released in a trace.\<close>

fun sessions_opened :: "event list \<Rightarrow> nat" where
  "sessions_opened [] = 0"
| "sessions_opened (EvConnection c True # t) = Suc (sessions_opened t)"
| "sessions_opened (e # t) = sessions_opened t"

fun sessions_released :: "event list \<Rightarrow> nat" where
  "sessions_released [] = 0"
| "sessions_released (EvUnbind # t) = Suc (sessions_released t)"
| "sessions_released (e # t) = sessions_released t"

subsection \<open>Reading a filter value\<close>

text \<open>
  The assertion value of a filter item in the string form of RFC 4515: it ends
  before the first \<^verbatim>\<open>)\<close>; a backslash with two hexadecimal digits stands for the
  character of that code; a bare \<^verbatim>\<open>(\<close>, \<^verbatim>\<open>*\<close> or NUL is not part of a literal
  value (\<^verbatim>\<open>*\<close> would make the item a substring or presence match). \<open>read_value\<close>
  returns the literal value and the rest of the string, from the closing
  parenthesis on.
\<close>

definition hex_digit :: "nat \<Rightarrow> nat option" where
  "hex_digit c =
     (if 48 \<le> c \<and> c \<le> 57 then Some (c - 48)
      else if 97 \<le> c \<and> c \<le> 102 then Some (c - 87)
      else if 65 \<le> c \<and> c \<le> 70 then Some (c - 55)
      else None)"

fun read_value :: "str \<Rightarrow> (str \<times> str) option" where
  "read_value [] = None"
| "read_value (c # cs) =
     (if c = 41 then Some ([], c # cs)
      else if c = 40 \<or> c = 42 \<or> c = 0 then None
      else if c = 92 then
        (case cs of
           h1 # h2 # rest \<Rightarrow>
             (case (hex_digit h1, hex_digit h2) of
                (Some a, Some b) \<Rightarrow>
                  (case read_value rest of
                     None \<Rightarrow> None
                   | Some (v, r) \<Rightarrow> Some ((16 * a + b) # v, r))
              | _ \<Rightarrow> None)
         | _ \<Rightarrow> None)
      else (case read_value cs of None \<Rightarrow> None | Some (v, r) \<Rightarrow> Some (c # v, r)))"

subsection \<open>An example directory\<close>

text \<open>
  The settings of the specification's scenarios: the defaults of the module and
  a search base.
\<close>

definition example_settings :: django_settings where
  "example_settings =
     \<lparr>LDAP_SERVER = None, LDAP_PORT = None,
      LDAP_SEARCH_BASE = Some (lit ''dc=example,dc=com''),
      LDAP_SEARCH_FILTER_ADDITIONAL = None, LDAP_BIND_DN = None,
      LDAP_BIND_PASSWORD = None, LDAP_USERNAME_ATTRIBUTE = None,
      LDAP_EMAIL_ATTRIBUTE = None, LDAP_FULL_NAME_ATTRIBUTE = None,
      LDAP_TLS_CERTS = None, LDAP_START_TLS = None\<rparr>"

text \<open>The same with a bind DN that holds the placeholder.\<close>

definition templated_settings :: django_settings where
  "templated_settings =
     example_settings\<lparr>LDAP_BIND_DN := Some (lit ''uid=<username>,ou=people,dc=example,dc=com'')\<rparr>"

text \<open>The same with an additional filter and the start of TLS before the bind.\<close>

definition filtered_settings :: django_settings where
  "filtered_settings =
     example_settings\<lparr>LDAP_SEARCH_FILTER_ADDITIONAL := Some (lit ''(objectClass=person)''),
                      LDAP_START_TLS := Some True\<rparr>"

text \<open>
  Settings that also define a page size. The module reads no such attribute;
  the name is an example.
\<close>

record paged_settings = django_settings +
  LDAP_PAGED_SIZE :: "nat option"

definition example_paged_settings :: paged_settings where
  "example_paged_settings =
     \<lparr>LDAP_SERVER = None, LDAP_PORT = None,
      LDAP_SEARCH_BASE = Some (lit ''dc=example,dc=com''),
      LDAP_SEARCH_FILTER_ADDITIONAL = None, LDAP_BIND_DN = None,
      LDAP_BIND_PASSWORD = None, LDAP_USERNAME_ATTRIBUTE = None,
      LDAP_EMAIL_ATTRIBUTE = None, LDAP_FULL_NAME_ATTRIBUTE = None,
      LDAP_TLS_CERTS = None, LDAP_START_TLS = None, LDAP_PAGED_SIZE = Some 10\<rparr>"

definition ascii :: "string \<Rightarrow> bytes" where
  "ascii s = map of_char s"

definition entry :: "string \<Rightarrow> bytes \<Rightarrow> bytes \<Rightarrow> bytes \<Rightarrow> response_item" where
  "entry d u m n =
     \<lparr>raw_attributes =
        Some (map_of [(lit ''uid'', [u]), (lit ''mail'', [m]), (lit ''displayName'', [n])]),
      dn = Some (lit d)\<rparr>"

definition alice :: response_item where
  "alice = entry ''uid=alice,dc=example,dc=com''
             (ascii ''alice'') (ascii ''alice@example.com'') (ascii ''Alice A'')"

text \<open>Two entries with the same mail address (scenario C).\<close>

definition shared_one :: response_item where
  "shared_one = entry ''uid=erin,dc=example,dc=com''
                  (ascii ''erin'') (ascii ''shared@example.com'') (ascii ''Erin E'')"

definition shared_two :: response_item where
  "shared_two = entry ''uid=frank,dc=example,dc=com''
                  (ascii ''frank'') (ascii ''shared@example.com'') (ascii ''Frank F'')"

text \<open>An entry whose \<^verbatim>\<open>displayName\<close> has no value.\<close>

definition nameless :: response_item where
  "nameless =
     \<lparr>raw_attributes =
        Some (map_of [(lit ''uid'', [ascii ''carol'']), (lit ''mail'', [ascii ''carol@example.com'']),
                      (lit ''displayName'', [])]),
      dn = Some (lit ''uid=carol,dc=example,dc=com'')\<rparr>"

text \<open>An entry whose mail attribute has one value, the empty one.\<close>

definition blank :: response_item where
  "blank = entry ''uid=gina,dc=example,dc=com'' (ascii ''gina'') [] (ascii ''Gina G'')"

text \<open>An entry whose mail value is not UTF-8.\<close>

definition garbled :: response_item where
  "garbled = entry ''uid=dave,dc=example,dc=com'' (ascii ''dave'') [0xFF, 0xFE] (ascii ''Dave D'')"

text \<open>The entry of alice under a distinguished name that holds a lone surrogate.\<close>

definition astray :: response_item where
  "astray = alice\<lparr>dn := Some [0xD800]\<rparr>"

text \<open>
  How the example world prints an exception: the text of a library exception,
  CPython's wording (3.11 and later) for the unbound local variable.
\<close>

definition exc_text :: "exn \<Rightarrow> str" where
  "exc_text e =
     (case e of
        LibraryError m \<Rightarrow> m
      | UnboundLocalError v \<Rightarrow>
          lit ''cannot access local variable '' @ [39] @ lit v @ [39]
          @ lit '' where it is not associated with a value''
      | _ \<Rightarrow> lit ''error'')"

text \<open>
  A world whose server object is always built; \<open>conn\<close> and \<open>srch\<close> say what
  \<^verbatim>\<open>Connection\<close> and \<^verbatim>\<open>search\<close> do.
\<close>

definition directory ::
  "(event list \<Rightarrow> conn_args \<Rightarrow> exn option)
     \<Rightarrow> (event list \<Rightarrow> search_args \<Rightarrow> exn + response_item list) \<Rightarrow> world" where
  "directory conn srch =
     \<lparr>str_exc = exc_text, Server_init = (\<lambda>a. None), Connection_init = conn,
      Connection_search = srch\<rparr>"

text \<open>Every bind is accepted and the search finds the given entries.\<close>

definition open_directory :: "response_item list \<Rightarrow> world" where
  "open_directory found = directory (\<lambda>t a. None) (\<lambda>t a. Inr found)"

text \<open>
  The same, with simple binds accepted only under the password \<^verbatim>\<open>s3*cr(e)t\<close>,
  which holds filter metacharacters.
\<close>

definition guarded_directory :: "response_item list \<Rightarrow> world" where
  "guarded_directory found =
     directory
       (\<lambda>t a. if authentication a = ANONYMOUS \<or> password a = Some (lit ''s3*cr(e)t'') then None
              else Some (LibraryError (lit ''invalidCredentials'')))
       (\<lambda>t a. Inr found)"

text \<open>A directory that refuses every session, and one whose search fails.\<close>

definition refusing_directory :: world where
  "refusing_directory =
     directory (\<lambda>t a. Some (LibraryError (lit ''socket connection error''))) (\<lambda>t a. Inr [])"

definition failing_search_directory :: world where
  "failing_search_directory =
     directory (\<lambda>t a. None) (\<lambda>t a. Inl (LibraryError (lit ''timeLimitExceeded'')))"

section \<open>Lemmas\<close>

lemmas settings_defs =
  SERVER_def PORT_def SEARCH_BASE_def SEARCH_FILTER_ADDITIONAL_def BIND_DN_def
  BIND_PASSWORD_def USERNAME_ATTRIBUTE_def EMAIL_ATTRIBUTE_def FULL_NAME_ATTRIBUTE_def
  TLS_CERTS_def START_TLS_def getattr_def

lemma get_server_cases:
  "get_server s w = (Inr srv, t0) \<Longrightarrow> srv = None \<and> (\<exists>a. t0 = [EvServer a True])"
  by (auto simp: get_server_def Let_def split: option.splits)

lemma search_session_body_trace:
  "search_session_body s w srv ab v t = (None, t1) \<Longrightarrow>
     \<exists>d. get_auth_details s v = Inr d \<and>
       t1 = t @ [EvConnection \<lparr>user = user d, password = password d,
                       authentication = authentication d, conn_server = srv,
                       auto_bind = ab, client_strategy = SYNC, check_names = True\<rparr> True]"
  by (auto simp: search_session_body_def Let_def split: sum.splits option.splits)

lemma search_body_trace:
  "search_body s w v t = (Inr response, t2) \<Longrightarrow>
     t2 = t @ [EvSearch \<lparr>search_base = SEARCH_BASE s,
                  search_filter = make_search_filter s v,
                  search_scope = SUBTREE,
                  attributes = [USERNAME_ATTRIBUTE s, EMAIL_ATTRIBUTE s, FULL_NAME_ATTRIBUTE s],
                  paged_size = 5\<rparr> True]"
  by (auto simp: search_body_def Let_def split: sum.splits)

lemma login_after_search:
  assumes "get_server s w = (Inr srv, t0)"
    and "search_session_body s w srv (bind_mode s) (escape_filter_chars u) t0 = (None, t1)"
    and "search_body s w (escape_filter_chars u) t1 = (Inr response, t2)"
  shows "login s w u pw = check_response s w srv (bind_mode s) pw response t2"
  using assms by (simp add: login_def open_search_session_def run_search_def)

lemma encode_cp_None: "encode_cp c = None \<longleftrightarrow> \<not> (c < 0x110000 \<and> \<not> surrogate c)"
  by (simp add: encode_cp_def surrogate_def)

lemma decode_encode_1:
  assumes "c < 0x80"
  shows "encode_cp c = Some [c]" "decode_cp c rest = Some (c, 0)"
  using assms by (simp_all add: encode_cp_def decode_cp_def)

lemma decode_encode_2:
  assumes "0x80 \<le> c" "c < 0x800"
  shows "encode_cp c = Some [0xC0 + c div 64, 0x80 + c mod 64]"
    "decode_cp (0xC0 + c div 64) ((0x80 + c mod 64) # rest) = Some (c, 1)"
proof -
  show "encode_cp c = Some [0xC0 + c div 64, 0x80 + c mod 64]"
    using assms by (simp add: encode_cp_def)
  have a: "c div 64 < 32" using assms by simp
  have b: "c mod 64 < 64" by simp
  have c: "c div 64 * 64 + c mod 64 = c" by simp
  show "decode_cp (0xC0 + c div 64) ((0x80 + c mod 64) # rest) = Some (c, 1)"
    using a b c assms by (simp add: decode_cp_def continuation_def)
qed

lemma digits3: "(c::nat) div 4096 * 4096 + (c div 64) mod 64 * 64 + c mod 64 = c"
proof -
  have 1: "c div 4096 = c div 64 div 64" by (simp add: div_mult2_eq)
  have 2: "c div 64 div 64 * 64 + c div 64 mod 64 = c div 64" by simp
  have 3: "c div 64 * 64 + c mod 64 = c" by simp
  have "c div 64 div 64 * 4096 = c div 64 div 64 * 64 * 64" by simp
  then have "c div 4096 * 4096 + (c div 64) mod 64 * 64 = (c div 64 div 64 * 64 + c div 64 mod 64) * 64"
    unfolding 1 by (simp only: add_mult_distrib)
  then show ?thesis using 2 3 by simp
qed

lemma digits4:
  "(c::nat) div 262144 * 262144 + (c div 4096) mod 64 * 4096 + (c div 64) mod 64 * 64 + c mod 64 = c"
proof -
  have 1: "c div 262144 = c div 4096 div 64" by (simp add: div_mult2_eq)
  have 2: "c div 4096 div 64 * 64 + c div 4096 mod 64 = c div 4096" by simp
  have "c div 4096 div 64 * 262144 = c div 4096 div 64 * 64 * 4096" by simp
  then have "c div 262144 * 262144 + (c div 4096) mod 64 * 4096 = (c div 4096 div 64 * 64 + c div 4096 mod 64) * 4096"
    unfolding 1 by (simp only: add_mult_distrib)
  then have "c div 262144 * 262144 + (c div 4096) mod 64 * 4096 = c div 4096 * 4096"
    using 2 by simp
  then show ?thesis using digits3[of c] by simp
qed

lemma continuation_digit: "continuation (0x80 + x mod 64)"
  by (simp add: continuation_def)

lemma decode_cp_3:
  assumes "a < 16" "continuation b1" "continuation b2"
    and "0x800 \<le> a * 4096 + (b1 - 0x80) * 64 + (b2 - 0x80)"
    and "\<not> surrogate (a * 4096 + (b1 - 0x80) * 64 + (b2 - 0x80))"
  shows "decode_cp (0xE0 + a) (b1 # b2 # rest) = Some (a * 4096 + (b1 - 0x80) * 64 + (b2 - 0x80), 2)"
  using assms by (simp add: decode_cp_def)

lemma decode_cp_4:
  assumes "a < 8" "continuation b1" "continuation b2" "continuation b3"
    and "0x10000 \<le> a * 262144 + (b1 - 0x80) * 4096 + (b2 - 0x80) * 64 + (b3 - 0x80)"
    and "a * 262144 + (b1 - 0x80) * 4096 + (b2 - 0x80) * 64 + (b3 - 0x80) < 0x110000"
  shows "decode_cp (0xF0 + a) (b1 # b2 # b3 # rest)
       = Some (a * 262144 + (b1 - 0x80) * 4096 + (b2 - 0x80) * 64 + (b3 - 0x80), 3)"
  using assms by (simp add: decode_cp_def)

lemma decode_encode_3:
  assumes "0x800 \<le> c" "c < 0x10000" "\<not> surrogate c"
  shows "encode_cp c = Some [0xE0 + c div 4096, 0x80 + (c div 64) mod 64, 0x80 + c mod 64]"
    "decode_cp (0xE0 + c div 4096) ((0x80 + (c div 64) mod 64) # (0x80 + c mod 64) # rest) = Some (c, 2)"
proof -
  show "encode_cp c = Some [0xE0 + c div 4096, 0x80 + (c div 64) mod 64, 0x80 + c mod 64]"
    using assms by (simp add: encode_cp_def)
  have a: "c div 4096 < 16" using assms by simp
  have v: "c div 4096 * 4096 + (0x80 + (c div 64) mod 64 - 0x80) * 64 + (0x80 + c mod 64 - 0x80) = c"
    using digits3[of c] by simp
  have "decode_cp (0xE0 + c div 4096) ((0x80 + (c div 64) mod 64) # (0x80 + c mod 64) # rest)
      = Some (c div 4096 * 4096 + (0x80 + (c div 64) mod 64 - 0x80) * 64 + (0x80 + c mod 64 - 0x80), 2)"
    by (rule decode_cp_3) (use a assms in \<open>simp_all only: v continuation_digit simp_thms\<close>)
  then show "decode_cp (0xE0 + c div 4096) ((0x80 + (c div 64) mod 64) # (0x80 + c mod 64) # rest) = Some (c, 2)"
    by (simp only: v)
qed

lemma decode_encode_4:
  assumes "0x10000 \<le> c" "c < 0x110000"
  shows "encode_cp c = Some [0xF0 + c div 262144, 0x80 + (c div 4096) mod 64,
              0x80 + (c div 64) mod 64, 0x80 + c mod 64]"
    "decode_cp (0xF0 + c div 262144) ((0x80 + (c div 4096) mod 64) #
              (0x80 + (c div 64) mod 64) # (0x80 + c mod 64) # rest) = Some (c, 3)"
proof -
  show "encode_cp c = Some [0xF0 + c div 262144, 0x80 + (c div 4096) mod 64,
              0x80 + (c div 64) mod 64, 0x80 + c mod 64]"
    using assms by (simp add: encode_cp_def)
  have a: "c div 262144 < 8" using assms by simp
  have v: "c div 262144 * 262144 + (0x80 + (c div 4096) mod 64 - 0x80) * 4096
             + (0x80 + (c div 64) mod 64 - 0x80) * 64 + (0x80 + c mod 64 - 0x80) = c"
    using digits4[of c] by simp
  have "decode_cp (0xF0 + c div 262144) ((0x80 + (c div 4096) mod 64) #
              (0x80 + (c div 64) mod 64) # (0x80 + c mod 64) # rest)
      = Some (c div 262144 * 262144 + (0x80 + (c div 4096) mod 64 - 0x80) * 4096
             + (0x80 + (c div 64) mod 64 - 0x80) * 64 + (0x80 + c mod 64 - 0x80), 3)"
    by (rule decode_cp_4) (use a assms in \<open>simp_all only: v continuation_digit simp_thms\<close>)
  then show "decode_cp (0xF0 + c div 262144) ((0x80 + (c div 4096) mod 64) #
              (0x80 + (c div 64) mod 64) # (0x80 + c mod 64) # rest) = Some (c, 3)"
    by (simp only: v)
qed

lemma decode_encode_cp:
  assumes "encode_cp c = Some bs"
  shows "\<exists>b bs'. bs = b # bs' \<and> decode_cp b (bs' @ rest) = Some (c, length bs')"
proof -
  from assms have ok: "c < 0x110000" "\<not> surrogate c"
    using encode_cp_None[of c] by auto
  consider "c < 0x80" | "0x80 \<le> c" "c < 0x800" | "0x800 \<le> c" "c < 0x10000"
    | "0x10000 \<le> c"
    by linarith
  then show ?thesis
  proof cases
    case 1
    with assms decode_encode_1[of c] show ?thesis by auto
  next
    case 2
    with assms decode_encode_2[of c] show ?thesis by auto
  next
    case 3
    with assms ok decode_encode_3[of c] show ?thesis by auto
  next
    case 4
    with assms ok decode_encode_4[of c] show ?thesis by auto
  qed
qed

lemma encode_cp_octets:
  assumes "encode_cp c = Some bs"
  shows "list_all (\<lambda>b. b < 256) bs"
proof -
  from assms have ok: "c < 0x110000" "\<not> surrogate c"
    using encode_cp_None[of c] by auto
  have d: "c div 64 < 32" if "c < 0x800" using that by simp
  have e: "c div 4096 < 16" if "c < 0x10000" using that by simp
  have f: "c div 262144 < 8" using ok by simp
  show ?thesis
    using assms d e f by (auto simp: encode_cp_def split: if_splits)
qed

lemma decode_encode_cps: "encode_cps s = Some ns \<Longrightarrow> decode_cps ns = Some s"
proof (induction s arbitrary: ns)
  case Nil
  then show ?case by simp
next
  case (Cons c cs)
  from Cons.prems obtain bs r where bs: "encode_cp c = Some bs"
    and r: "encode_cps cs = Some r" and ns: "ns = bs @ r"
    by (auto split: option.splits)
  from decode_encode_cp[OF bs, of r] obtain b bs' where
    b: "bs = b # bs'" and d: "decode_cp b (bs' @ r) = Some (c, length bs')"
    by blast
  from Cons.IH[OF r] have "decode_cps r = Some cs" .
  with b d ns show ?case by simp
qed

lemma encode_cps_octets: "encode_cps s = Some ns \<Longrightarrow> list_all (\<lambda>b. b < 256) ns"
proof (induction s arbitrary: ns)
  case Nil
  then show ?case by simp
next
  case (Cons c cs)
  from Cons.prems obtain bs r where bs: "encode_cp c = Some bs"
    and r: "encode_cps cs = Some r" and ns: "ns = bs @ r"
    by (auto split: option.splits)
  with Cons.IH[OF r] encode_cp_octets[OF bs] show ?case by simp
qed

lemma unat_octets:
  "list_all (\<lambda>b. b < 256) ns \<Longrightarrow> map unat (map of_nat ns :: 8 word list) = ns"
  by (induction ns) (simp_all add: unat_of_nat)

lemma encode_cp_SomeD: "encode_cp c = Some bs \<Longrightarrow> c < 0x110000 \<and> \<not> surrogate c"
  using encode_cp_None[of c] by auto

lemma encode_cps_None: "encode_cps s = None \<longleftrightarrow> \<not> encodable s"
  by (induction s) (auto simp: encodable_def encode_cp_None split: option.splits dest: encode_cp_SomeD)

lemma dn_text_encodable: "encodable d \<Longrightarrow> dn_text (Some d) = Inr d"
proof -
  assume "encodable d"
  then obtain ns where ns: "encode_cps d = Some ns"
    using encode_cps_None[of d] by auto
  from unat_octets[OF encode_cps_octets[OF ns]] decode_encode_cps[OF ns] ns
  show ?thesis by (simp add: dn_text_def str_encode_def bytes_decode_def)
qed

lemma dn_text_Inr: "dn_text v = Inr x \<Longrightarrow> v = Some x"
proof (cases v)
  case None
  then show "dn_text v = Inr x \<Longrightarrow> v = Some x" by (simp add: dn_text_def)
next
  case (Some d)
  assume "dn_text v = Inr x"
  with Some dn_text_encodable[of d] encode_cps_None[of d] show "v = Some x"
    by (cases "encodable d") (auto simp: dn_text_def str_encode_def)
qed

lemma verify_bind_None: "verify_bind w srv ab v pw t = (None, t') \<Longrightarrow> \<exists>x. dn_text v = Inr x"
  by (auto simp: verify_bind_def verify_body_def Let_def split: sum.splits option.splits)

lemma dn_text_not_encodable: "\<not> encodable d \<Longrightarrow> dn_text (Some d) = Inl UnicodeEncodeError"
  using encode_cps_None[of d] by (simp add: dn_text_def str_encode_def)

lemma replace_single_Nil: "replace [c] new [] = []"
  by (simp add: replace_def)

lemma replace_single_Cons:
  "replace [c] new (x # xs) = (if x = c then new else [x]) @ replace [c] new xs"
  by (simp add: replace_def)

lemma replace_single_append:
  "replace [c] new (xs @ ys) = replace [c] new xs @ replace [c] new ys"
  by (induction xs) (simp_all add: replace_single_Nil replace_single_Cons)

lemma escape_Nil: "escape_filter_chars [] = []"
  by (simp add: escape_filter_chars_def lit_def replace_single_Nil)

lemma escape_Cons: "escape_filter_chars (x # xs) = esc1 x @ escape_filter_chars xs"
  by (simp add: escape_filter_chars_def esc1_def lit_def Let_def
      replace_single_Nil replace_single_Cons replace_single_append)

lemma escape_concat: "escape_filter_chars u = concat (map esc1 u)"
  by (induction u) (simp_all add: escape_Nil escape_Cons)

lemma read_value_escape:
  "read_value (escape_filter_chars u @ 41 # rest) = Some (u, 41 # rest)"
  by (induction u) (simp_all add: escape_Nil escape_Cons esc1_def lit_def hex_digit_def)

lemma escape_no_meta:
  "0 \<notin> set (escape_filter_chars u) \<and> 40 \<notin> set (escape_filter_chars u)
   \<and> 41 \<notin> set (escape_filter_chars u) \<and> 42 \<notin> set (escape_filter_chars u)"
  by (induction u) (simp_all add: escape_Nil escape_Cons esc1_def lit_def)

lemma get_server_trace: "\<exists>a ok. snd (get_server s w) = [EvServer a ok]"
  by (auto simp: get_server_def Let_def split: option.splits)

lemma search_session_trace:
  "snd (open_search_session s w srv ab v t) = t
   \<or> (\<exists>c ok. snd (open_search_session s w srv ab v t) = t @ [EvConnection c ok])"
  by (auto simp: open_search_session_def search_session_body_def Let_def
      split: sum.splits option.splits)

lemma run_search_trace:
  "\<exists>ok. snd (run_search s w v t) = t @ [EvSearch (the_search s v) ok]"
  by (auto simp: run_search_def search_body_def the_search_def Let_def split: sum.splits)

lemma verify_bind_trace:
  "snd (verify_bind w srv ab d pw t) = t
   \<or> (\<exists>c ok. snd (verify_bind w srv ab d pw t) = t @ [EvConnection c ok])"
  by (auto simp: verify_bind_def verify_body_def Let_def split: sum.splits option.splits)

lemma check_response_trace:
  "snd (check_response s w srv ab pw response t) = t
   \<or> (\<exists>c ok. snd (check_response s w srv ab pw response t) = t @ [EvConnection c ok])"
proof -
  have "snd (check_response s w srv ab pw response t) = t
    \<or> (\<exists>d. snd (check_response s w srv ab pw response t) = snd (verify_bind w srv ab d pw t))"
    by (auto simp: check_response_def split: list.splits option.splits sum.splits prod.splits)
      (metis snd_conv)+
  then show ?thesis
    using verify_bind_trace[of w srv ab _ pw t] by metis
qed

lemma login_trace:
  "\<exists>a o1 cs1 ss cs2.
     snd (login s w u pw) = EvServer a o1 # cs1 @ ss @ cs2
     \<and> conn_events cs1 \<and> search_events (the_search s (escape_filter_chars u)) ss
     \<and> conn_events cs2"
proof -
  let ?E = "escape_filter_chars u"
  obtain a o1 where t0: "snd (get_server s w) = [EvServer a o1]"
    using get_server_trace by blast
  have final: "?thesis"
    if "snd (login s w u pw) = EvServer a o1 # cs1 @ ss @ cs2" "conn_events cs1"
      "search_events (the_search s ?E) ss" "conn_events cs2" for cs1 ss cs2
    using that by blast
  have nil: "conn_events []" "search_events (the_search s ?E) []"
    by (simp_all add: conn_events_def search_events_def)
  show ?thesis
  proof (cases "fst (get_server s w)")
    case (Inl e)
    with t0 have "get_server s w = (Inl e, [EvServer a o1])"
      by (metis prod.collapse)
    then have "snd (login s w u pw) = EvServer a o1 # [] @ [] @ []"
      by (simp add: login_def)
    then show ?thesis by (rule final) (rule nil)+
  next
    case (Inr srv)
    with t0 have g: "get_server s w = (Inr srv, [EvServer a o1])"
      by (metis prod.collapse)
    let ?os = "open_search_session s w srv (bind_mode s) ?E [EvServer a o1]"
    obtain cs1 where t1: "snd ?os = EvServer a o1 # cs1" and c1: "conn_events cs1"
      using search_session_trace[of s w srv "bind_mode s" ?E "[EvServer a o1]"]
      by (auto simp: conn_events_def)
    show ?thesis
    proof (cases "fst ?os")
      case (Some e)
      with t1 have o: "?os = (Some e, EvServer a o1 # cs1)"
        by (metis prod.collapse)
      have "snd (login s w u pw) = EvServer a o1 # cs1 @ [] @ []"
        by (simp add: login_def g o)
      then show ?thesis by (rule final) (rule c1 nil)+
    next
      case None
      with t1 have o: "?os = (None, EvServer a o1 # cs1)"
        by (metis prod.collapse)
      let ?rs = "run_search s w ?E (EvServer a o1 # cs1)"
      obtain ok where t2: "snd ?rs = EvServer a o1 # cs1 @ [EvSearch (the_search s ?E) ok]"
        using run_search_trace[of s w ?E "EvServer a o1 # cs1"] by auto
      show ?thesis
      proof (cases "fst ?rs")
        case (Inl e)
        with t2 have r: "?rs = (Inl e, EvServer a o1 # cs1 @ [EvSearch (the_search s ?E) ok])"
          by (metis prod.collapse)
        have "snd (login s w u pw) = EvServer a o1 # cs1 @ [EvSearch (the_search s ?E) ok] @ []"
          by (simp add: login_def g o r)
        then show ?thesis
          by (rule final) (simp_all add: c1 nil search_events_def)
      next
        case (Inr response)
        with t2 have r: "?rs = (Inr response, EvServer a o1 # cs1 @ [EvSearch (the_search s ?E) ok])"
          by (metis prod.collapse)
        let ?cr = "check_response s w srv (bind_mode s) pw response
                     (EvServer a o1 # cs1 @ [EvSearch (the_search s ?E) ok])"
        obtain cs2 where t3: "snd ?cr = EvServer a o1 # cs1 @ [EvSearch (the_search s ?E) ok] @ cs2"
          and c2: "conn_events cs2"
          using check_response_trace[of s w srv "bind_mode s" pw response
              "EvServer a o1 # cs1 @ [EvSearch (the_search s ?E) ok]"]
          by (auto simp: conn_events_def)
        have "snd (login s w u pw) = snd ?cr"
          by (simp add: login_def g o r)
        with t3 have "snd (login s w u pw)
            = EvServer a o1 # cs1 @ [EvSearch (the_search s ?E) ok] @ cs2"
          by simp
        then show ?thesis
          by (rule final) (simp_all add: c1 c2 search_events_def)
      qed
    qed
  qed
qed

lemma released_conn: "conn_events es \<Longrightarrow> sessions_released (es @ t) = sessions_released t"
  by (auto simp: conn_events_def)

lemma released_search: "search_events q es \<Longrightarrow> sessions_released (es @ t) = sessions_released t"
  by (auto simp: search_events_def)

lemma opened_conn: "conn_events es \<Longrightarrow> sessions_opened (es @ t) \<le> Suc (sessions_opened t)"
  by (auto simp: conn_events_def) (case_tac ok; simp)

lemma opened_search: "search_events q es \<Longrightarrow> sessions_opened (es @ t) = sessions_opened t"
  by (auto simp: search_events_def)

lemma searches_conn: "conn_events es \<Longrightarrow> search_calls (es @ t) = search_calls t"
  by (auto simp: conn_events_def)

lemma first_decoded_invalid:
  "\<not> valid_utf8 v \<Longrightarrow> first_decoded (Some (v # vs)) = Inl UnicodeDecodeError"
  by (simp add: first_decoded_def bytes_decode_def valid_utf8_def)

lemma first_decoded_valid:
  "valid_utf8 v \<Longrightarrow> \<exists>a. first_decoded (Some (v # vs)) = Inr a"
  by (auto simp: first_decoded_def bytes_decode_def valid_utf8_def)

lemma searched_trace:
  assumes "get_server s w = (Inr srv, t0)"
    and "search_session_body s w srv ab v t0 = (None, t1)"
    and "search_body s w v t1 = (Inr response, t2)"
  shows "\<exists>a c q. t2 = [EvServer a True, EvConnection c True, EvSearch q True] \<and> auto_bind c = ab"
  using get_server_cases[OF assms(1)] search_session_body_trace[OF assms(2)]
    search_body_trace[OF assms(3)] by auto

subsection \<open>Unfolding the examples\<close>

lemmas example_defs =
  example_settings_def templated_settings_def filtered_settings_def example_paged_settings_def
  open_directory_def guarded_directory_def refusing_directory_def failing_search_directory_def
  directory_def exc_text_def alice_def shared_one_def shared_two_def nameless_def blank_def garbled_def
  astray_def entry_def ascii_def lit_def

lemmas stage_defs =
  get_server_def get_auth_details_def search_session_body_def search_body_def
  make_search_filter_def bind_mode_def startswith_def lower_def lower_cp_def
  escape_Nil escape_Cons esc1_def Let_def

lemmas response_defs =
  check_response_def eligible_def truthy_def first_decoded_def bytes_decode_def
  decode_cp_def continuation_def surrogate_def verify_bind_def verify_body_def dn_text_def
  str_encode_def encode_cp_def

lemmas login_defs = login_def open_search_session_def run_search_def

section \<open>The claims\<close>

text \<open>
  Claim C1: with a bind DN that holds the placeholder, the secret of the search
  bind is the password the caller gave to \<^verbatim>\<open>login\<close>. The code does not do this:
  \<^verbatim>\<open>_get_auth_details\<close> has no password parameter, and its first branch reads
  the local variable \<^verbatim>\<open>password\<close> before it is assigned. With the bind DN
  \<^verbatim>\<open>uid=<username>,ou=people,dc=example,dc=com\<close> it returns nothing and raises
  \<^verbatim>\<open>UnboundLocalError\<close>; \<^verbatim>\<open>login\<close> turns that into \<^verbatim>\<open>LDAPConnectionError\<close> and
  opens no session.
\<close>

theorem templated_bind_secret_unbound:
  "get_auth_details templated_settings (escape_filter_chars (lit ''alice''))
     = Inl (UnboundLocalError ''password'')
   \<and> login templated_settings (open_directory [alice]) (lit ''alice'') (lit ''s3*cr(e)t'')
     = (Inl (LDAPConnectionError
               (lit ''Error connecting to LDAP server: ''
                @ exc_text (UnboundLocalError ''password''))),
        [EvServer \<lparr>host = lit ''localhost'', port = lit ''389'', get_info = NONE,
                   use_ssl = False, tls = None\<rparr> True])"
  by (simp add: login_def open_search_session_def stage_defs settings_defs example_defs)

text \<open>
  Claim C2: \<^verbatim>\<open>_get_server\<close> returns the server object it builds and \<^verbatim>\<open>login\<close>
  uses it for both sessions. The code does not do this: the function has no
  \<^verbatim>\<open>return\<close> statement. Under the default settings the object is built for
  \<^verbatim>\<open>localhost\<close>, port \<^verbatim>\<open>389\<close>, without SSL, and the result is \<^verbatim>\<open>None\<close>, which
  \<^verbatim>\<open>login\<close> hands to both \<^verbatim>\<open>Connection\<close> calls.
\<close>

theorem get_server_returns_None:
  "get_server example_settings (open_directory [alice])
     = (Inr None,
        [EvServer \<lparr>host = lit ''localhost'', port = lit ''389'', get_info = NONE,
                   use_ssl = False, tls = None\<rparr> True])
   \<and> map conn_server (connection_calls
         (snd (login example_settings (open_directory [alice]) (lit ''alice'') (lit ''s3*cr(e)t''))))
     = [None, None]"
  by (simp add: login_def open_search_session_def run_search_def stage_defs response_defs
      settings_defs example_defs)

text \<open>
  Claim C3: for every input, the filter metacharacters are escaped before the
  value is put into the search filter, so no input widens the match. Every
  search that \<^verbatim>\<open>login\<close> runs has the filter built from the escaped input; the
  escaped input holds no \<^verbatim>\<open>(\<close>, \<^verbatim>\<open>)\<close>, \<^verbatim>\<open>*\<close> or NUL, and read as a filter
  value in front of the closing parenthesis that follows it in the filter, it
  is the literal input and ends exactly at that parenthesis.
\<close>

theorem search_filter_value_escaped:
  assumes "EvSearch a ok \<in> set (snd (login s w u pw))"
  shows "search_filter a = make_search_filter s (escape_filter_chars u)
     \<and> read_value (escape_filter_chars u @ lit '')'' @ rest) = Some (u, lit '')'' @ rest)
     \<and> 0 \<notin> set (escape_filter_chars u) \<and> 40 \<notin> set (escape_filter_chars u)
     \<and> 41 \<notin> set (escape_filter_chars u) \<and> 42 \<notin> set (escape_filter_chars u)"
proof -
  obtain a' o1 cs1 ss cs2 where t: "snd (login s w u pw) = EvServer a' o1 # cs1 @ ss @ cs2"
    and c: "conn_events cs1" "search_events (the_search s (escape_filter_chars u)) ss" "conn_events cs2"
    using login_trace by blast
  from assms have "a = the_search s (escape_filter_chars u)"
    using c by (auto simp: t conn_events_def search_events_def)
  then have "search_filter a = make_search_filter s (escape_filter_chars u)"
    by (simp add: the_search_def)
  moreover have "read_value (escape_filter_chars u @ lit '')'' @ rest) = Some (u, lit '')'' @ rest)"
    using read_value_escape[of u rest] by (simp add: lit_def)
  ultimately show ?thesis using escape_no_meta[of u] by simp
qed

text \<open>The input of the specification, \<^verbatim>\<open>)(uid=*\<close>.\<close>

theorem search_filter_value_escaped_witness:
  "EvSearch (the_search example_settings (escape_filter_chars (lit '')(uid=*''))) True
     \<in> set (snd (login example_settings (open_directory [alice]) (lit '')(uid=*'') (lit ''pw'')))
   \<and> search_filter (the_search example_settings (escape_filter_chars (lit '')(uid=*'')))
     = lit ''(|(uid='' @ 92 # lit ''29'' @ 92 # lit ''28uid='' @ 92 # lit ''2a)(mail=''
       @ 92 # lit ''29'' @ 92 # lit ''28uid='' @ 92 # lit ''2a))''
   \<and> read_value (escape_filter_chars (lit '')(uid=*'') @ lit '')(mail=x))'')
     = Some (lit '')(uid=*'', lit '')(mail=x))'')"
proof -
  have h: "EvSearch (the_search example_settings (escape_filter_chars (lit '')(uid=*''))) True
     \<in> set (snd (login example_settings (open_directory [alice]) (lit '')(uid=*'') (lit ''pw'')))"
    by (simp add: login_def open_search_session_def run_search_def the_search_def stage_defs
        response_defs settings_defs example_defs)
  from search_filter_value_escaped[OF h, of "lit ''(mail=x))''"] h
  show ?thesis
    by (simp add: stage_defs settings_defs example_defs)
qed

text \<open>
  Claim C4: when the search has returned, and no response item is eligible, the
  call fails with \<^verbatim>\<open>LDAPUserLoginError\<close> "LDAP login not found"; when more than
  one is eligible, it fails with \<^verbatim>\<open>LDAPUserLoginError\<close> "LDAP login could not be
  determined."; in both cases no bind is attempted after the search.
\<close>

theorem zero_or_many_eligible_rejected:
  assumes "get_server s w = (Inr srv, t0)"
    and "search_session_body s w srv (bind_mode s) (escape_filter_chars u) t0 = (None, t1)"
    and "search_body s w (escape_filter_chars u) t1 = (Inr response, t2)"
  shows "(filter eligible response = [] \<longrightarrow>
            fst (login s w u pw) = Inl (LDAPUserLoginError (lit ''LDAP login not found''))
            \<and> verification_binds (snd (login s w u pw)) = [])
       \<and> (length (filter eligible response) > 1 \<longrightarrow>
            fst (login s w u pw) = Inl (LDAPUserLoginError (lit ''LDAP login could not be determined.''))
            \<and> verification_binds (snd (login s w u pw)) = [])"
proof -
  obtain a c q where t2: "t2 = [EvServer a True, EvConnection c True, EvSearch q True]"
    using searched_trace[OF assms] by blast
  have v: "verification_binds t2 = []"
    by (simp add: t2 verification_binds_def)
  show ?thesis
    unfolding login_after_search[OF assms]
    by (auto simp: check_response_def v split: list.splits)
qed

text \<open>Scenarios B and C: nobody found, and two entries under one mail address.\<close>

theorem zero_or_many_eligible_rejected_witness:
  "fst (login example_settings (open_directory []) (lit ''nobody'') (lit ''pw''))
     = Inl (LDAPUserLoginError (lit ''LDAP login not found''))
   \<and> verification_binds (snd (login example_settings (open_directory []) (lit ''nobody'') (lit ''pw''))) = []
   \<and> fst (login example_settings (open_directory [shared_one, shared_two])
             (lit ''shared@example.com'') (lit ''pw''))
     = Inl (LDAPUserLoginError (lit ''LDAP login could not be determined.''))
   \<and> verification_binds (snd (login example_settings (open_directory [shared_one, shared_two])
             (lit ''shared@example.com'') (lit ''pw''))) = []"
proof -
  let ?s = example_settings
  have none: "filter eligible [] = []" by simp
  have two: "length (filter eligible [shared_one, shared_two]) > 1"
    by (simp add: eligible_def example_defs)
  have a: "get_server ?s (open_directory found) = (Inr None, snd (get_server ?s (open_directory found)))"
    for found
    by (simp add: stage_defs settings_defs example_defs)
  have b: "search_session_body ?s (open_directory found) None (bind_mode ?s) v t
         = (None, snd (search_session_body ?s (open_directory found) None (bind_mode ?s) v t))"
    for found v t
    by (simp add: stage_defs settings_defs example_defs)
  have c: "search_body ?s (open_directory found) v t
         = (Inr found, snd (search_body ?s (open_directory found) v t))"
    for found v t
    by (simp add: stage_defs settings_defs example_defs)
  from zero_or_many_eligible_rejected[OF a b c, of "[]" "lit ''nobody''" "lit ''pw''"] none
    zero_or_many_eligible_rejected[OF a b c, of "[shared_one, shared_two]" "lit ''shared@example.com''" "lit ''pw''"] two
  show ?thesis by blast
qed

text \<open>
  Claim C5, as amended: for the single eligible entry, if one of the three
  configured attributes is absent from \<^verbatim>\<open>raw_attributes\<close> or has an empty list
  of values, the call fails with \<^verbatim>\<open>LDAPUserLoginError\<close> "LDAP login is invalid.";
  and when \<^verbatim>\<open>login\<close> returns a triple, it consists of the first values of the
  three attributes, decoded as UTF-8, and the entry's distinguished name went
  through its UTF-8 conversion unchanged. (The claim as stated asks for a
  non-empty value; the code accepts an attribute whose first value is empty.)
\<close>

theorem attributes_checked_and_decoded:
  assumes "get_server s w = (Inr srv, t0)"
    and "search_session_body s w srv (bind_mode s) (escape_filter_chars u) t0 = (None, t1)"
    and "search_body s w (escape_filter_chars u) t1 = (Inr response, t2)"
    and "filter eligible response = [r]"
    and "raw_attributes r = Some ra"
  shows "(\<not> (truthy (ra (USERNAME_ATTRIBUTE s)) \<and> truthy (ra (EMAIL_ATTRIBUTE s))
              \<and> truthy (ra (FULL_NAME_ATTRIBUTE s))) \<longrightarrow>
            login s w u pw = (Inl (LDAPUserLoginError (lit ''LDAP login is invalid.'')), t2))
       \<and> (fst (login s w u pw) = Inr (username, email, full_name) \<longrightarrow>
            (\<exists>v vs. ra (USERNAME_ATTRIBUTE s) = Some (v # vs) \<and> bytes_decode v = Inr username)
            \<and> (\<exists>v vs. ra (EMAIL_ATTRIBUTE s) = Some (v # vs) \<and> bytes_decode v = Inr email)
            \<and> (\<exists>v vs. ra (FULL_NAME_ATTRIBUTE s) = Some (v # vs) \<and> bytes_decode v = Inr full_name)
            \<and> (\<exists>d. dn r = Some d \<and> dn_text (dn r) = Inr d))"
proof -
  have fd: "\<exists>v vs. x = Some (v # vs) \<and> bytes_decode v = Inr y" if "first_decoded x = Inr y" for x y
    using that by (auto simp: first_decoded_def split: option.splits list.splits)
  have dt: "\<exists>d. dn r = Some d \<and> dn_text (dn r) = Inr d"
    if "verify_bind w srv ab (dn r) pw t = (None, t')" for ab t t'
    using verify_bind_None[OF that] dn_text_Inr[of "dn r"] by auto
  show ?thesis
    unfolding login_after_search[OF assms(1-3)]
    using assms(4,5)
    by (auto simp: check_response_def split: sum.splits prod.splits option.splits
        dest!: fd dest: dt)
qed

text \<open>An entry without a display name, and scenario A.\<close>

theorem attributes_checked_and_decoded_witness:
  "login example_settings (open_directory [nameless]) (lit ''carol'') (lit ''pw'')
     = (Inl (LDAPUserLoginError (lit ''LDAP login is invalid.'')),
        snd (search_body example_settings (open_directory [nameless])
               (escape_filter_chars (lit ''carol''))
               (snd (search_session_body example_settings (open_directory [nameless]) None
                       (bind_mode example_settings) (escape_filter_chars (lit ''carol''))
                       (snd (get_server example_settings (open_directory [nameless])))))))
   \<and> fst (login example_settings (open_directory [alice]) (lit ''alice'') (lit ''pw''))
     = Inr (lit ''alice'', lit ''alice@example.com'', lit ''Alice A'')
   \<and> (\<exists>v vs. the (raw_attributes alice) (lit ''uid'') = Some (v # vs)
          \<and> bytes_decode v = Inr (lit ''alice''))
   \<and> (\<exists>v vs. the (raw_attributes alice) (lit ''mail'') = Some (v # vs)
          \<and> bytes_decode v = Inr (lit ''alice@example.com''))
   \<and> (\<exists>v vs. the (raw_attributes alice) (lit ''displayName'') = Some (v # vs)
          \<and> bytes_decode v = Inr (lit ''Alice A''))
   \<and> (\<exists>d. dn alice = Some d \<and> dn_text (dn alice) = Inr d)"
proof -
  let ?s = example_settings
  have a: "get_server ?s (open_directory found) = (Inr None, snd (get_server ?s (open_directory found)))"
    for found
    by (simp add: stage_defs settings_defs example_defs)
  have b: "search_session_body ?s (open_directory found) None (bind_mode ?s) v t
         = (None, snd (search_session_body ?s (open_directory found) None (bind_mode ?s) v t))"
    for found v t
    by (simp add: stage_defs settings_defs example_defs)
  have c: "search_body ?s (open_directory found) v t
         = (Inr found, snd (search_body ?s (open_directory found) v t))"
    for found v t
    by (simp add: stage_defs settings_defs example_defs)
  have n1: "filter eligible [nameless] = [nameless]"
    by (simp add: eligible_def example_defs)
  have n2: "raw_attributes nameless = Some (the (raw_attributes nameless))"
    by (simp add: example_defs)
  have n3: "\<not> (truthy (the (raw_attributes nameless) (USERNAME_ATTRIBUTE ?s))
              \<and> truthy (the (raw_attributes nameless) (EMAIL_ATTRIBUTE ?s))
              \<and> truthy (the (raw_attributes nameless) (FULL_NAME_ATTRIBUTE ?s)))"
    by (simp add: truthy_def settings_defs example_defs)
  have a1: "filter eligible [alice] = [alice]"
    by (simp add: eligible_def example_defs)
  have a2: "raw_attributes alice = Some (the (raw_attributes alice))"
    by (simp add: example_defs)
  have a3: "fst (login ?s (open_directory [alice]) (lit ''alice'') (lit ''pw''))
     = Inr (lit ''alice'', lit ''alice@example.com'', lit ''Alice A'')"
    by (simp add: login_def open_search_session_def run_search_def stage_defs
        response_defs settings_defs example_defs)
  have names: "USERNAME_ATTRIBUTE ?s = lit ''uid''" "EMAIL_ATTRIBUTE ?s = lit ''mail''"
    "FULL_NAME_ATTRIBUTE ?s = lit ''displayName''"
    by (simp_all add: settings_defs example_defs)
  from attributes_checked_and_decoded[OF a b c n1 n2, of "lit ''carol''" "lit ''pw''"] n3
  have first: "login ?s (open_directory [nameless]) (lit ''carol'') (lit ''pw'')
     = (Inl (LDAPUserLoginError (lit ''LDAP login is invalid.'')),
        snd (search_body ?s (open_directory [nameless]) (escape_filter_chars (lit ''carol''))
               (snd (search_session_body ?s (open_directory [nameless]) None
                       (bind_mode ?s) (escape_filter_chars (lit ''carol''))
                       (snd (get_server ?s (open_directory [nameless])))))))"
    by blast
  from attributes_checked_and_decoded[OF a b c a1 a2, of "lit ''alice''" "lit ''pw''"
      "lit ''alice''" "lit ''alice@example.com''" "lit ''Alice A''"] a3
  have second: "(\<exists>v vs. the (raw_attributes alice) (USERNAME_ATTRIBUTE ?s) = Some (v # vs)
          \<and> bytes_decode v = Inr (lit ''alice''))
   \<and> (\<exists>v vs. the (raw_attributes alice) (EMAIL_ATTRIBUTE ?s) = Some (v # vs)
          \<and> bytes_decode v = Inr (lit ''alice@example.com''))
   \<and> (\<exists>v vs. the (raw_attributes alice) (FULL_NAME_ATTRIBUTE ?s) = Some (v # vs)
          \<and> bytes_decode v = Inr (lit ''Alice A''))
   \<and> (\<exists>d. dn alice = Some d \<and> dn_text (dn alice) = Inr d)"
    by blast
  from first second a3 show ?thesis
    unfolding names by blast
qed

text \<open>The mail attribute of the entry has one value, which is empty: the attribute lacks a
  non-empty value, and the call returns a triple with an empty mail address.\<close>

theorem empty_value_accepted:
  "the (raw_attributes blank) (EMAIL_ATTRIBUTE example_settings) = Some [[]]
   \<and> fst (login example_settings (open_directory [blank]) (lit ''gina'') (lit ''pw''))
     = Inr (lit ''gina'', [], lit ''Gina G'')"
  by (simp add: login_defs stage_defs response_defs settings_defs example_defs)

text \<open>
  Claim C6, as amended: for a single eligible entry whose three attributes have
  first values that decode as UTF-8 and whose distinguished name can be encoded,
  \<^verbatim>\<open>login\<close> attempts exactly one bind after the search: a simple bind as the
  entry's distinguished name, with the caller's password as given, on the same
  server argument and under the same \<^verbatim>\<open>auto_bind\<close> mode as the search session.
  The call returns the decoded triple when this bind is accepted and fails with
  \<^verbatim>\<open>LDAPUserLoginError\<close> "LDAP bind failed: ..." when it is not. (The claim as
  stated holds for every entry with the three attributes; an entry with a value
  that does not decode is never bound.)
\<close>

theorem verification_bind_as_entry:
  assumes "get_server s w = (Inr srv, t0)"
    and "search_session_body s w srv (bind_mode s) (escape_filter_chars u) t0 = (None, t1)"
    and "search_body s w (escape_filter_chars u) t1 = (Inr response, t2)"
    and "filter eligible response = [r]"
    and "raw_attributes r = Some ra"
    and "dn r = Some d"
    and "encodable d"
    and "first_decoded (ra (USERNAME_ATTRIBUTE s)) = Inr username"
    and "first_decoded (ra (EMAIL_ATTRIBUTE s)) = Inr email"
    and "first_decoded (ra (FULL_NAME_ATTRIBUTE s)) = Inr full_name"
    and "bind = \<lparr>user = Some d, password = Some pw, authentication = SIMPLE,
                 conn_server = srv, auto_bind = bind_mode s, client_strategy = SYNC,
                 check_names = True\<rparr>"
  shows "verification_binds (snd (login s w u pw)) = [bind]
       \<and> map auto_bind (connection_calls (snd (login s w u pw))) = [bind_mode s, bind_mode s]
       \<and> fst (login s w u pw) =
           (case Connection_init w t2 bind of
              None \<Rightarrow> Inr (username, email, full_name)
            | Some e \<Rightarrow> Inl (LDAPUserLoginError (lit ''LDAP bind failed: '' @ str_exc w e)))"
proof -
  obtain a c q where t2: "t2 = [EvServer a True, EvConnection c True, EvSearch q True]"
    and ab: "auto_bind c = bind_mode s"
    using searched_trace[OF assms(1-3)] by blast
  have tr: "truthy (ra (USERNAME_ATTRIBUTE s))" "truthy (ra (EMAIL_ATTRIBUTE s))"
    "truthy (ra (FULL_NAME_ATTRIBUTE s))"
    using assms(8-10)
    by (auto simp: truthy_def first_decoded_def split: option.splits list.splits)
  have vb: "verify_bind w srv (bind_mode s) (dn r) pw t2 =
     (case Connection_init w t2 bind of
        None \<Rightarrow> (None, t2 @ [EvConnection bind True])
      | Some e \<Rightarrow> (Some (LDAPUserLoginError (lit ''LDAP bind failed: '' @ str_exc w e)),
                    t2 @ [EvConnection bind False]))"
    using dn_text_encodable[OF assms(7)] assms(6,11)
    by (simp add: verify_bind_def verify_body_def split: option.splits)
  have cr: "check_response s w srv (bind_mode s) pw response t2 =
     (case Connection_init w t2 bind of
        None \<Rightarrow> (Inr (username, email, full_name), t2 @ [EvConnection bind True])
      | Some e \<Rightarrow> (Inl (LDAPUserLoginError (lit ''LDAP bind failed: '' @ str_exc w e)),
                    t2 @ [EvConnection bind False]))"
    using assms(4,5,8-10) tr by (simp add: check_response_def vb split: option.splits)
  show ?thesis
    unfolding login_after_search[OF assms(1-3)] cr
    using ab assms(11)
    by (simp add: t2 verification_binds_def split: option.splits)
qed

text \<open>Scenarios A and D, with a password of metacharacters that reaches the bind unchanged.\<close>

theorem verification_bind_as_entry_witness:
  "verification_binds
     (snd (login example_settings (guarded_directory [alice]) (lit ''alice'') (lit ''s3*cr(e)t'')))
     = [\<lparr>user = Some (lit ''uid=alice,dc=example,dc=com''),
         password = Some (lit ''s3*cr(e)t''), authentication = SIMPLE, conn_server = None,
         auto_bind = AUTO_BIND_NO_TLS, client_strategy = SYNC, check_names = True\<rparr>]
   \<and> map auto_bind (connection_calls
         (snd (login example_settings (guarded_directory [alice]) (lit ''alice'') (lit ''s3*cr(e)t''))))
     = [AUTO_BIND_NO_TLS, AUTO_BIND_NO_TLS]
   \<and> fst (login example_settings (guarded_directory [alice]) (lit ''alice'') (lit ''s3*cr(e)t''))
     = Inr (lit ''alice'', lit ''alice@example.com'', lit ''Alice A'')
   \<and> fst (login example_settings (guarded_directory [alice]) (lit ''alice'') (lit ''guess''))
     = Inl (LDAPUserLoginError (lit ''LDAP bind failed: invalidCredentials''))"
proof -
  let ?s = example_settings and ?w = "guarded_directory [alice]"
  let ?ra = "the (raw_attributes alice)"
  have a: "get_server ?s ?w = (Inr None, snd (get_server ?s ?w))"
    by (simp add: stage_defs settings_defs example_defs)
  have b: "search_session_body ?s ?w None (bind_mode ?s) v t
         = (None, snd (search_session_body ?s ?w None (bind_mode ?s) v t))" for v t
    by (simp add: stage_defs settings_defs example_defs)
  have c: "search_body ?s ?w v t = (Inr [alice], snd (search_body ?s ?w v t))" for v t
    by (simp add: stage_defs settings_defs example_defs)
  have e1: "filter eligible [alice] = [alice]"
    by (simp add: eligible_def example_defs)
  have e2: "raw_attributes alice = Some ?ra"
    by (simp add: example_defs)
  have e3: "dn alice = Some (lit ''uid=alice,dc=example,dc=com'')"
    by (simp add: example_defs)
  have e4: "encodable (lit ''uid=alice,dc=example,dc=com'')"
    by (simp add: encodable_def surrogate_def lit_def)
  have d1: "first_decoded (?ra (USERNAME_ATTRIBUTE ?s)) = Inr (lit ''alice'')"
    by (simp add: response_defs settings_defs example_defs)
  have d2: "first_decoded (?ra (EMAIL_ATTRIBUTE ?s)) = Inr (lit ''alice@example.com'')"
    by (simp add: response_defs settings_defs example_defs)
  have d3: "first_decoded (?ra (FULL_NAME_ATTRIBUTE ?s)) = Inr (lit ''Alice A'')"
    by (simp add: response_defs settings_defs example_defs)
  have m: "bind_mode ?s = AUTO_BIND_NO_TLS"
    by (simp add: bind_mode_def settings_defs example_defs)
  note good = verification_bind_as_entry[OF a b c e1 e2 e3 e4 d1 d2 d3 refl,
      of "lit ''alice''" "lit ''s3*cr(e)t''"]
  note bad = verification_bind_as_entry[OF a b c e1 e2 e3 e4 d1 d2 d3 refl,
      of "lit ''alice''" "lit ''guess''"]
  from good bad show ?thesis
    unfolding m by (simp add: example_defs)
qed

text \<open>An eligible entry with the three attributes, one value of which is not UTF-8: no bind
  after the search. The same for a distinguished name that cannot be encoded.\<close>

theorem undecodable_entry_not_bound:
  "filter eligible [garbled] = [garbled]
   \<and> truthy (the (raw_attributes garbled) (USERNAME_ATTRIBUTE example_settings))
   \<and> truthy (the (raw_attributes garbled) (EMAIL_ATTRIBUTE example_settings))
   \<and> truthy (the (raw_attributes garbled) (FULL_NAME_ATTRIBUTE example_settings))
   \<and> fst (login example_settings (open_directory [garbled]) (lit ''dave'') (lit ''pw''))
     = Inl UnicodeDecodeError
   \<and> verification_binds
       (snd (login example_settings (open_directory [garbled]) (lit ''dave'') (lit ''pw''))) = []
   \<and> verification_binds
       (snd (login example_settings (open_directory [astray]) (lit ''alice'') (lit ''pw''))) = []"
  by (simp add: login_defs stage_defs response_defs settings_defs example_defs
      verification_binds_def)

text \<open>
  Claim C7: once the server step has returned, a failure while the search
  session is set up (in \<^verbatim>\<open>_get_auth_details\<close> or in \<^verbatim>\<open>Connection\<close>) is raised as
  \<^verbatim>\<open>LDAPConnectionError\<close> "Error connecting to LDAP server: " with the cause, and
  a failure of the search is raised as \<^verbatim>\<open>LDAPUserLoginError\<close> "LDAP login
  incorrect: " with the cause.
\<close>

theorem failure_kinds_by_stage:
  assumes "get_server s w = (Inr srv, t0)"
  shows "(search_session_body s w srv (bind_mode s) (escape_filter_chars u) t0 = (Some e, t1) \<longrightarrow>
            login s w u pw =
              (Inl (LDAPConnectionError (lit ''Error connecting to LDAP server: '' @ str_exc w e)), t1))
       \<and> (search_session_body s w srv (bind_mode s) (escape_filter_chars u) t0 = (None, t1) \<and>
          search_body s w (escape_filter_chars u) t1 = (Inl e, t2) \<longrightarrow>
            login s w u pw =
              (Inl (LDAPUserLoginError (lit ''LDAP login incorrect: '' @ str_exc w e)), t2))"
  using assms by (simp add: login_def open_search_session_def run_search_def)

text \<open>A directory that refuses the session, and one whose search runs out of time.\<close>

theorem failure_kinds_by_stage_witness:
  "fst (login example_settings refusing_directory (lit ''alice'') (lit ''pw''))
     = Inl (LDAPConnectionError (lit ''Error connecting to LDAP server: socket connection error''))
   \<and> fst (login example_settings failing_search_directory (lit ''alice'') (lit ''pw''))
     = Inl (LDAPUserLoginError (lit ''LDAP login incorrect: timeLimitExceeded''))"
proof -
  let ?s = example_settings
  have a1: "get_server ?s refusing_directory = (Inr None, snd (get_server ?s refusing_directory))"
    by (simp add: stage_defs settings_defs example_defs)
  have b1: "search_session_body ?s refusing_directory None (bind_mode ?s) v t
         = (Some (LibraryError (lit ''socket connection error'')),
            snd (search_session_body ?s refusing_directory None (bind_mode ?s) v t))" for v t
    by (simp add: stage_defs settings_defs example_defs)
  have a2: "get_server ?s failing_search_directory
         = (Inr None, snd (get_server ?s failing_search_directory))"
    by (simp add: stage_defs settings_defs example_defs)
  have b2: "search_session_body ?s failing_search_directory None (bind_mode ?s) v t
         = (None, snd (search_session_body ?s failing_search_directory None (bind_mode ?s) v t))"
    for v t
    by (simp add: stage_defs settings_defs example_defs)
  have c2: "search_body ?s failing_search_directory v t
         = (Inl (LibraryError (lit ''timeLimitExceeded'')),
            snd (search_body ?s failing_search_directory v t))" for v t
    by (simp add: stage_defs settings_defs example_defs)
  from failure_kinds_by_stage[OF a1, of "lit ''alice''" _ _ "lit ''pw''"] b1
  have "fst (login ?s refusing_directory (lit ''alice'') (lit ''pw''))
     = Inl (LDAPConnectionError (lit ''Error connecting to LDAP server: ''
              @ str_exc refusing_directory (LibraryError (lit ''socket connection error''))))"
    by (metis fst_conv)
  moreover
  from failure_kinds_by_stage[OF a2, of "lit ''alice''" _ _ "lit ''pw''"] b2 c2
  have "fst (login ?s failing_search_directory (lit ''alice'') (lit ''pw''))
     = Inl (LDAPUserLoginError (lit ''LDAP login incorrect: ''
              @ str_exc failing_search_directory (LibraryError (lit ''timeLimitExceeded''))))"
    by (metis fst_conv)
  ultimately show ?thesis
    by (simp add: example_defs)
qed

text \<open>
  Claim C8, as amended: \<^verbatim>\<open>login\<close> runs at most one search. Its base is the
  configured search base, its scope the whole subtree, its attributes the three
  configured names, its filter \<^verbatim>\<open>(|(user=value)(email=value))\<close> over the escaped
  input, wrapped as \<^verbatim>\<open>(&\<close>, that filter, the additional fragment as configured
  and \<^verbatim>\<open>)\<close> when a fragment is configured; and its page size is the constant 5,
  whatever the settings define. (The claim as stated has the page size follow a
  configured value.)
\<close>

theorem search_call_arguments:
  fixes s :: "'a django_settings_scheme"
  shows "search_calls (snd (login s w u pw)) = [] \<or>
    search_calls (snd (login s w u pw)) = 
      [\<lparr>search_base = SEARCH_BASE s,
        search_filter =
          (if SEARCH_FILTER_ADDITIONAL s = []
           then lit ''(|('' @ USERNAME_ATTRIBUTE s @ lit ''='' @ escape_filter_chars u
              @ lit '')('' @ EMAIL_ATTRIBUTE s @ lit ''='' @ escape_filter_chars u @ lit ''))''
           else lit ''(&'' @
              (lit ''(|('' @ USERNAME_ATTRIBUTE s @ lit ''='' @ escape_filter_chars u
              @ lit '')('' @ EMAIL_ATTRIBUTE s @ lit ''='' @ escape_filter_chars u @ lit ''))'')
              @ SEARCH_FILTER_ADDITIONAL s @ lit '')''),
        search_scope = SUBTREE,
        attributes = [USERNAME_ATTRIBUTE s, EMAIL_ATTRIBUTE s, FULL_NAME_ATTRIBUTE s],
        paged_size = 5\<rparr>]"
proof -
  obtain a o1 cs1 ss cs2 where t: "snd (login s w u pw) = EvServer a o1 # cs1 @ ss @ cs2"
    and c: "conn_events cs1" "search_events (the_search s (escape_filter_chars u)) ss" "conn_events cs2"
    using login_trace by blast
  have "search_calls (snd (login s w u pw)) = search_calls ss"
    using searches_conn[OF c(1), of "ss @ cs2"] c(2) searches_conn[OF c(3), of "[]"]
    by (auto simp: t search_events_def)
  then show ?thesis
    using c(2) by (auto simp: search_events_def the_search_def make_search_filter_def Let_def)
qed

text \<open>With an additional filter configured.\<close>

theorem search_call_arguments_witness:
  "search_calls (snd (login filtered_settings (open_directory [alice]) (lit ''alice'') (lit ''pw'')))
     = [\<lparr>search_base = lit ''dc=example,dc=com'',
         search_filter = lit ''(&(|(uid=alice)(mail=alice))(objectClass=person))'',
         search_scope = SUBTREE,
         attributes = [lit ''uid'', lit ''mail'', lit ''displayName''],
         paged_size = 5\<rparr>]"
proof -
  have ne: "search_calls (snd (login filtered_settings (open_directory [alice]) (lit ''alice'') (lit ''pw''))) \<noteq> []"
    by (simp add: login_defs stage_defs response_defs settings_defs example_defs)
  from search_call_arguments[of filtered_settings "open_directory [alice]" "lit ''alice''" "lit ''pw''"] ne
  show ?thesis
    by (simp add: stage_defs settings_defs example_defs)
qed

text \<open>Settings that define a page size of 10: the search asks for 5.\<close>

theorem page_size_not_configured:
  "map paged_size
     (search_calls (snd (login example_paged_settings (open_directory [alice])
                           (lit ''alice'') (lit ''pw''))))
     = [5]
   \<and> getattr (LDAP_PAGED_SIZE example_paged_settings) 5 = 10"
  by (simp add: login_defs stage_defs response_defs settings_defs example_defs)

text \<open>
  Claim C9, as amended: \<^verbatim>\<open>login\<close> releases no session. On every exit path the
  sessions it opened, at most two, are still open when it returns or raises.
  (The claim as stated has every opened session released.)
\<close>

theorem no_session_released:
  "sessions_released (snd (login s w u pw)) = 0 \<and> sessions_opened (snd (login s w u pw)) \<le> 2"
proof -
  obtain a o1 cs1 ss cs2 where t: "snd (login s w u pw) = EvServer a o1 # cs1 @ ss @ cs2"
    and c: "conn_events cs1" "search_events (the_search s (escape_filter_chars u)) ss" "conn_events cs2"
    using login_trace by blast
  have "sessions_released (cs1 @ ss @ cs2) = 0"
    using c released_conn[of cs2 "[]"] by (simp add: released_conn released_search)
  moreover have "sessions_opened (cs1 @ ss @ cs2) \<le> 2"
    using opened_conn[OF c(1), of "ss @ cs2"] opened_conn[OF c(3), of "[]"] opened_search[OF c(2), of cs2]
    by simp
  ultimately show ?thesis by (simp add: t)
qed

text \<open>A login that fails at the verification bind.\<close>

theorem no_session_released_witness:
  "sessions_released
     (snd (login example_settings (guarded_directory [alice]) (lit ''alice'') (lit ''guess''))) = 0
   \<and> sessions_opened
     (snd (login example_settings (guarded_directory [alice]) (lit ''alice'') (lit ''guess''))) \<le> 2"
  using no_session_released[of example_settings "guarded_directory [alice]" "lit ''alice''"
      "lit ''guess''"] .

text \<open>Scenario A: the call returns with two sessions opened and none released.\<close>

theorem sessions_left_open:
  "fst (login example_settings (open_directory [alice]) (lit ''alice'') (lit ''s3*cr(e)t''))
     = Inr (lit ''alice'', lit ''alice@example.com'', lit ''Alice A'')
   \<and> sessions_opened
        (snd (login example_settings (open_directory [alice]) (lit ''alice'') (lit ''s3*cr(e)t''))) = 2
   \<and> sessions_released
        (snd (login example_settings (open_directory [alice]) (lit ''alice'') (lit ''s3*cr(e)t''))) = 0"
  by (simp add: login_defs stage_defs response_defs settings_defs example_defs)

text \<open>
  Claim C10, as amended: the three attribute values are decoded outside any
  \<^verbatim>\<open>try\<close> block, so when one of them is not valid UTF-8 the call raises
  \<^verbatim>\<open>UnicodeDecodeError\<close>, which is neither of the module's two kinds; the
  distinguished name is converted inside the \<^verbatim>\<open>try\<close> block of the verification
  bind, so a failure there is raised as \<^verbatim>\<open>LDAPUserLoginError\<close> "LDAP bind
  failed: ...". (The claim as stated puts the distinguished name outside the
  block as well.)
\<close>

theorem decoding_failures_by_place:
  assumes "get_server s w = (Inr srv, t0)"
    and "search_session_body s w srv (bind_mode s) (escape_filter_chars u) t0 = (None, t1)"
    and "search_body s w (escape_filter_chars u) t1 = (Inr response, t2)"
    and "filter eligible response = [r]"
    and "raw_attributes r = Some ra"
    and "dn r = Some d"
    and "ra (USERNAME_ATTRIBUTE s) = Some (uv # uvs)"
    and "ra (EMAIL_ATTRIBUTE s) = Some (ev # evs)"
    and "ra (FULL_NAME_ATTRIBUTE s) = Some (fv # fvs)"
  shows "(\<not> (valid_utf8 uv \<and> valid_utf8 ev \<and> valid_utf8 fv) \<longrightarrow>
            login s w u pw = (Inl UnicodeDecodeError, t2))
       \<and> (valid_utf8 uv \<and> valid_utf8 ev \<and> valid_utf8 fv \<and> \<not> encodable d \<longrightarrow>
            login s w u pw =
              (Inl (LDAPUserLoginError (lit ''LDAP bind failed: '' @ str_exc w UnicodeEncodeError)), t2))"
proof -
  have tr: "truthy (ra (USERNAME_ATTRIBUTE s))" "truthy (ra (EMAIL_ATTRIBUTE s))"
    "truthy (ra (FULL_NAME_ATTRIBUTE s))"
    using assms(7-9) by (simp_all add: truthy_def)
  have fl: "first_decoded (Some (v # vs)) = Inl x \<longleftrightarrow> x = UnicodeDecodeError \<and> \<not> valid_utf8 v"
    for v vs x
    by (auto simp: first_decoded_def bytes_decode_def valid_utf8_def split: option.splits)
  have fr: "valid_utf8 v" if "first_decoded (Some (v # vs)) = Inr x" for v vs x
    using that by (auto simp: first_decoded_def bytes_decode_def valid_utf8_def split: option.splits)
  have vb: "verify_bind w srv (bind_mode s) (dn r) pw t2 =
      (Some (LDAPUserLoginError (lit ''LDAP bind failed: '' @ str_exc w UnicodeEncodeError)), t2)"
    if "\<not> encodable d"
    using dn_text_not_encodable[OF that] assms(6)
    by (simp add: verify_bind_def verify_body_def)
  show ?thesis
    unfolding login_after_search[OF assms(1-3)]
    using assms(4,5,7-9) tr
    by (auto simp: check_response_def vb fl split: sum.splits dest: fr)
qed

text \<open>A mail value that is not UTF-8, and a distinguished name with a lone surrogate.\<close>

theorem decoding_failures_by_place_witness:
  "fst (login example_settings (open_directory [garbled]) (lit ''dave'') (lit ''pw''))
     = Inl UnicodeDecodeError
   \<and> fst (login example_settings (open_directory [astray]) (lit ''alice'') (lit ''pw''))
     = Inl (LDAPUserLoginError (lit ''LDAP bind failed: error''))"
proof -
  let ?s = example_settings
  have a: "get_server ?s (open_directory found) = (Inr None, snd (get_server ?s (open_directory found)))"
    for found
    by (simp add: stage_defs settings_defs example_defs)
  have b: "search_session_body ?s (open_directory found) None (bind_mode ?s) v t
         = (None, snd (search_session_body ?s (open_directory found) None (bind_mode ?s) v t))"
    for found v t
    by (simp add: stage_defs settings_defs example_defs)
  have c: "search_body ?s (open_directory found) v t
         = (Inr found, snd (search_body ?s (open_directory found) v t))"
    for found v t
    by (simp add: stage_defs settings_defs example_defs)
  have g1: "filter eligible [garbled] = [garbled]"
    by (simp add: eligible_def example_defs)
  have g2: "raw_attributes garbled = Some (the (raw_attributes garbled))"
    by (simp add: example_defs)
  have g3: "dn garbled = Some (lit ''uid=dave,dc=example,dc=com'')"
    by (simp add: example_defs)
  have g4: "the (raw_attributes garbled) (USERNAME_ATTRIBUTE ?s) = Some (ascii ''dave'' # [])"
    "the (raw_attributes garbled) (EMAIL_ATTRIBUTE ?s) = Some ([0xFF, 0xFE] # [])"
    "the (raw_attributes garbled) (FULL_NAME_ATTRIBUTE ?s) = Some (ascii ''Dave D'' # [])"
    by (simp_all add: settings_defs example_defs)
  have g5: "\<not> (valid_utf8 (ascii ''dave'') \<and> valid_utf8 [0xFF, 0xFE] \<and> valid_utf8 (ascii ''Dave D''))"
    by (simp add: valid_utf8_def decode_cp_def)
  have s1: "filter eligible [astray] = [astray]"
    by (simp add: eligible_def example_defs)
  have s2: "raw_attributes astray = Some (the (raw_attributes astray))"
    by (simp add: example_defs)
  have s3: "dn astray = Some [0xD800]"
    by (simp add: example_defs)
  have s4: "the (raw_attributes astray) (USERNAME_ATTRIBUTE ?s) = Some (ascii ''alice'' # [])"
    "the (raw_attributes astray) (EMAIL_ATTRIBUTE ?s) = Some (ascii ''alice@example.com'' # [])"
    "the (raw_attributes astray) (FULL_NAME_ATTRIBUTE ?s) = Some (ascii ''Alice A'' # [])"
    by (simp_all add: settings_defs example_defs)
  have s5: "valid_utf8 (ascii ''alice'') \<and> valid_utf8 (ascii ''alice@example.com'')
      \<and> valid_utf8 (ascii ''Alice A'') \<and> \<not> encodable [0xD800]"
    by (simp add: valid_utf8_def decode_cp_def encodable_def surrogate_def ascii_def)
  from decoding_failures_by_place[OF a b c g1 g2 g3 g4, of "lit ''dave''" "lit ''pw''"] g5
  have "fst (login ?s (open_directory [garbled]) (lit ''dave'') (lit ''pw'')) = Inl UnicodeDecodeError"
    by (metis fst_conv)
  moreover
  from decoding_failures_by_place[OF a b c s1 s2 s3 s4, of "lit ''alice''" "lit ''pw''"] s5
  have "fst (login ?s (open_directory [astray]) (lit ''alice'') (lit ''pw''))
     = Inl (LDAPUserLoginError (lit ''LDAP bind failed: ''
              @ str_exc (open_directory [astray]) UnicodeEncodeError))"
    by (metis fst_conv)
  ultimately show ?thesis
    by (simp add: example_defs)
qed

text \<open>The conversion of the distinguished name fails and the call raises
  \<^verbatim>\<open>LDAPUserLoginError\<close>, after the search and without a further bind.\<close>

theorem dn_failure_is_login_error:
  "dn_text (dn astray) = Inl UnicodeEncodeError
   \<and> login example_settings (guarded_directory [astray]) (lit ''alice'') (lit ''s3*cr(e)t'')
     = (Inl (LDAPUserLoginError (lit ''LDAP bind failed: error'')),
        [EvServer \<lparr>host = lit ''localhost'', port = lit ''389'', get_info = NONE,
                   use_ssl = False, tls = None\<rparr> True,
         EvConnection \<lparr>user = None, password = None, authentication = ANONYMOUS,
                       conn_server = None, auto_bind = AUTO_BIND_NO_TLS,
                       client_strategy = SYNC, check_names = True\<rparr> True,
         EvSearch (the_search example_settings (lit ''alice'')) True])"
  by (simp add: login_defs the_search_def stage_defs response_defs settings_defs example_defs)

end
